theory Spec2Isabelle
  imports Main "HOL-Library.Log_Nat"
begin

section \<open>SkillVault: the domain records\<close>

text \<open>
  The two value classes of \<^verbatim>\<open>skillvault.py\<close>. Both constructors store their arguments
  unchanged. The \<^verbatim>\<open>id\<close> attribute is \<^verbatim>\<open>None\<close> for a record that has not been stored
  (the menu loop always passes \<^verbatim>\<open>None\<close>), so it is an \<open>int option\<close>; the other attributes
  have the types of the class docstrings. Field names carry a class prefix, because
  both classes have an \<^verbatim>\<open>id\<close> and \<open>id\<close> is the identity function of HOL.
\<close>

record Skill =
  sk_id :: "int option"
  sk_name :: string
  sk_category :: string
  sk_target_hours :: int

record PracticeSession =
  ps_id :: "int option"
  ps_skill_id :: int
  ps_duration_minutes :: int
  ps_notes :: string
  ps_date :: string

section \<open>Exceptions\<close>

text \<open>
  The exceptions that the program raises or meets. \<^verbatim>\<open>sqlite3.Error\<close> carries the message
  that the handlers print. \<^verbatim>\<open>OverflowError\<close> is what the \<^verbatim>\<open>sqlite3\<close> module raises when an
  integer given as a parameter of a statement does not fit in 64 bits; it is not a
  subclass of \<^verbatim>\<open>sqlite3.Error\<close>, nor of \<^verbatim>\<open>ValueError\<close>.
\<close>

datatype exn =
  Sqlite3Error string | AttributeError | ValueError | EOFError | ZeroDivisionError | OverflowError

section \<open>The datastore\<close>

text \<open>
  The two tables of \<^verbatim>\<open>create_tables\<close>, each a list of rows in rowid order, together
  with the counter that \<^verbatim>\<open>AUTOINCREMENT\<close> keeps for it (the largest rowid the table has
  ever held). An \<^verbatim>\<open>INTEGER\<close> column holds a signed 64-bit integer, and Python's integers
  are unbounded: a statement takes an integer parameter only when it lies in that range
  and raises \<^verbatim>\<open>OverflowError\<close> otherwise, before anything is changed. A statement is
  therefore a function from the database to the new database or an exception.
\<close>

record skills_row =
  skills_id :: int
  skills_name :: string
  skills_category :: string
  skills_target_hours :: int

record sessions_row =
  sessions_id :: int
  sessions_skill_id :: int
  sessions_duration_minutes :: int
  sessions_notes :: string
  sessions_date :: string

record database =
  skills :: "skills_row list"
  skills_seq :: int
  sessions :: "sessions_row list"
  sessions_seq :: int

definition empty_database :: database where
  "empty_database = \<lparr>skills = [], skills_seq = 0, sessions = [], sessions_seq = 0\<rparr>"

text \<open>
  The rowid of an inserted row under \<^verbatim>\<open>INTEGER PRIMARY KEY AUTOINCREMENT\<close>: one more than
  the largest rowid that is or ever was in the table.
\<close>

definition next_rowid :: "int list \<Rightarrow> int \<Rightarrow> int" where
  "next_rowid ids seq = fold max ids (max seq 0) + 1"

text \<open>The integers that can be bound to a parameter: \<open>-2 ^ 63 \<le> n < 2 ^ 63\<close>.\<close>

definition int64 :: "int \<Rightarrow> bool" where
  "int64 n = (- (2 ^ 63) \<le> n \<and> n < 2 ^ 63)"

type_synonym statement = "database \<Rightarrow> exn + database"

text \<open>\<^verbatim>\<open>INSERT INTO skills (name, category, target_hours) VALUES (?, ?, ?)\<close>\<close>

definition insert_skills :: "string \<Rightarrow> string \<Rightarrow> int \<Rightarrow> statement" where
  "insert_skills n c t d =
     (if int64 t
      then Inr (let i = next_rowid (map skills_id (skills d)) (skills_seq d)
                in d\<lparr>skills := skills d @
                         [\<lparr>skills_id = i, skills_name = n, skills_category = c,
                           skills_target_hours = t\<rparr>],
                      skills_seq := i\<rparr>)
      else Inl OverflowError)"

text \<open>\<^verbatim>\<open>INSERT INTO sessions (skill_id, duration_minutes, notes, date) VALUES (?, ?, ?, ?)\<close>\<close>

definition insert_sessions :: "int \<Rightarrow> int \<Rightarrow> string \<Rightarrow> string \<Rightarrow> statement" where
  "insert_sessions k m n dt d =
     (if int64 k \<and> int64 m
      then Inr (let i = next_rowid (map sessions_id (sessions d)) (sessions_seq d)
                in d\<lparr>sessions := sessions d @
                         [\<lparr>sessions_id = i, sessions_skill_id = k, sessions_duration_minutes = m,
                           sessions_notes = n, sessions_date = dt\<rparr>],
                      sessions_seq := i\<rparr>)
      else Inl OverflowError)"

text \<open>\<^verbatim>\<open>DELETE FROM sessions WHERE skill_id=?\<close> and \<^verbatim>\<open>DELETE FROM skills WHERE id=?\<close>\<close>

definition delete_sessions :: "int \<Rightarrow> statement" where
  "delete_sessions k d =
     (if int64 k
      then Inr (d\<lparr>sessions := filter (\<lambda>x. sessions_skill_id x \<noteq> k) (sessions d)\<rparr>)
      else Inl OverflowError)"

definition delete_skills :: "int \<Rightarrow> statement" where
  "delete_skills k d =
     (if int64 k
      then Inr (d\<lparr>skills := filter (\<lambda>s. skills_id s \<noteq> k) (skills d)\<rparr>)
      else Inl OverflowError)"

subsection \<open>Floating point\<close>

text \<open>
  The quotient \<^verbatim>\<open>/60.0\<close> of the query is an SQLite REAL and reaches Python as a
  \<^verbatim>\<open>float\<close>: both are IEEE binary64. A float is modelled by the rational it denotes, and
  every operation rounds its exact result to 53 significant bits, ties to even. The
  exponent range is not bounded, as the integers are not.
\<close>

type_synonym float = rat

definition round_half_even :: "rat \<Rightarrow> int" where
  "round_half_even x =
     (let f = \<lfloor>x\<rfloor>; d = x - of_int f
      in if d < 1 / 2 then f else if 1 / 2 < d then f + 1 else if even f then f else f + 1)"

text \<open>The \<open>e\<close> with \<open>2 ^ e \<le> \<bar>x\<bar> < 2 ^ (e + 1)\<close>, for \<open>x \<noteq> 0\<close>.\<close>

definition binary_exponent :: "rat \<Rightarrow> int" where
  "binary_exponent x =
     (if 1 \<le> \<bar>x\<bar> then int (floorlog 2 (nat \<lfloor>\<bar>x\<bar>\<rfloor>)) - 1
      else - int (floorlog 2 (nat (\<lceil>1 / \<bar>x\<bar>\<rceil> - 1))))"

definition fl :: "rat \<Rightarrow> float" where
  "fl x = (if x = 0 then 0
           else let u = 2 powi (binary_exponent x - 52)
                in of_int (round_half_even (x / u)) * u)"

definition float_of_int :: "int \<Rightarrow> float" where
  "float_of_int n = fl (of_int n)"

text \<open>SQLite's \<^verbatim>\<open>n / 60.0\<close> for an integer \<open>n\<close>: the integer becomes a REAL first.\<close>

definition sql_div_real :: "int \<Rightarrow> float \<Rightarrow> float" where
  "sql_div_real n y = fl (float_of_int n / y)"

text \<open>Python's \<^verbatim>\<open>x / n\<close> and \<^verbatim>\<open>x * n\<close> for a float \<open>x\<close> and an int \<open>n\<close>, and \<^verbatim>\<open>round(x, nd)\<close>.\<close>

definition truediv :: "float \<Rightarrow> int \<Rightarrow> exn + float" where
  "truediv x n = (if n = 0 then Inl ZeroDivisionError else Inr (fl (x / float_of_int n)))"

definition mul :: "float \<Rightarrow> int \<Rightarrow> float" where
  "mul x n = fl (x * float_of_int n)"

definition py_round :: "float \<Rightarrow> nat \<Rightarrow> float" where
  "py_round x nd = fl (of_int (round_half_even (x * 10 ^ nd)) / 10 ^ nd)"

subsection \<open>The progress query\<close>

text \<open>
  \<^verbatim>\<open>SELECT s.id, s.name, s.target_hours, IFNULL(SUM(sess.duration_minutes), 0)/60.0
  FROM skills s LEFT JOIN sessions sess ON s.id = sess.skill_id GROUP BY s.id\<close>

  The query is evaluated as it is written: the outer join pairs every skill with each
  of its sessions, or with NULL when it has none; the joined rows are grouped by
  \<^verbatim>\<open>s.id\<close>, groups in ascending key order; \<^verbatim>\<open>SUM\<close> skips NULL and is NULL when nothing is
  left; \<^verbatim>\<open>IFNULL\<close> replaces that NULL by 0.
\<close>

type_synonym joined_row = "skills_row \<times> sessions_row option"

definition join_skill :: "skills_row \<Rightarrow> sessions_row list \<Rightarrow> joined_row list" where
  "join_skill s xs =
     (case filter (\<lambda>x. skills_id s = sessions_skill_id x) xs of
        [] \<Rightarrow> [(s, None)]
      | ms \<Rightarrow> map (\<lambda>x. (s, Some x)) ms)"

definition left_join :: "skills_row list \<Rightarrow> sessions_row list \<Rightarrow> joined_row list" where
  "left_join ss xs = concat (map (\<lambda>s. join_skill s xs) ss)"

definition group_by :: "('a \<Rightarrow> int) \<Rightarrow> 'a list \<Rightarrow> 'a list list" where
  "group_by key js = map (\<lambda>k. filter (\<lambda>j. key j = k) js) (sort (remdups (map key js)))"

definition sql_sum :: "int option list \<Rightarrow> int option" where
  "sql_sum vs = (case List.map_filter (\<lambda>v. v) vs of [] \<Rightarrow> None | ns \<Rightarrow> Some (sum_list ns))"

definition ifnull :: "'a option \<Rightarrow> 'a \<Rightarrow> 'a" where
  "ifnull v d = (case v of None \<Rightarrow> d | Some a \<Rightarrow> a)"

type_synonym progress_row = "int \<times> string \<times> int \<times> float"

definition select_group :: "joined_row list \<Rightarrow> progress_row list" where
  "select_group g =
     (case g of
        [] \<Rightarrow> []
      | j # _ \<Rightarrow>
          [(skills_id (fst j), skills_name (fst j), skills_target_hours (fst j),
            sql_div_real
              (ifnull (sql_sum (map (\<lambda>r. map_option sessions_duration_minutes (snd r)) g)) 0)
              60)])"

definition select_progress :: "database \<Rightarrow> progress_row list" where
  "select_progress d =
     concat (map select_group
       (group_by (\<lambda>j. skills_id (fst j)) (left_join (skills d) (sessions d))))"

section \<open>The process: connection, console, exceptions\<close>

text \<open>
  What the methods read and write besides their arguments: the \<^verbatim>\<open>conn\<close> attribute of the
  \<^verbatim>\<open>SkillDatabase\<close> object (absent until \<^verbatim>\<open>sqlite3.connect\<close> has returned), what has been
  written to the console, and the lines still to be read from it. The database is the
  one the connection sees; durability is not modelled. A line, like every string here,
  is a list of characters, and a character is a code point below 256.

  A method either returns or raises: \<open>Inl\<close> is the exception that reaches its caller.
\<close>

record world =
  conn :: "database option"
  stdout :: "string list"
  stdin :: "string list"

type_synonym 'a io = "world \<Rightarrow> (exn + 'a) \<times> world"

definition return_io :: "'a \<Rightarrow> 'a io" where
  "return_io a w = (Inr a, w)"

definition bind_io :: "'a io \<Rightarrow> ('a \<Rightarrow> 'b io) \<Rightarrow> 'b io" where
  "bind_io m f w = (case m w of (Inl e, w') \<Rightarrow> (Inl e, w') | (Inr a, w') \<Rightarrow> f a w')"

definition lift_io :: "exn + 'a \<Rightarrow> 'a io" where
  "lift_io r w = (r, w)"

text \<open>\<^verbatim>\<open>try: body except sqlite3.Error as e: handler\<close> and \<^verbatim>\<open>try: body except ValueError: handler\<close>\<close>

definition except_sqlite3_Error :: "'a io \<Rightarrow> (string \<Rightarrow> 'a io) \<Rightarrow> 'a io" where
  "except_sqlite3_Error body handler w =
     (case body w of
        (Inl (Sqlite3Error e), w') \<Rightarrow> handler e w'
      | r \<Rightarrow> r)"

definition except_ValueError :: "'a io \<Rightarrow> 'a io \<Rightarrow> 'a io" where
  "except_ValueError body handler w =
     (case body w of
        (Inl ValueError, w') \<Rightarrow> handler w'
      | r \<Rightarrow> r)"

definition print :: "string \<Rightarrow> unit io" where
  "print s w = (Inr (), w\<lparr>stdout := stdout w @ [s]\<rparr>)"

definition input :: "string \<Rightarrow> string io" where
  "input prompt w =
     (case stdin w of
        [] \<Rightarrow> (Inl EOFError, w\<lparr>stdout := stdout w @ [prompt]\<rparr>)
      | l # ls \<Rightarrow> (Inr l, w\<lparr>stdout := stdout w @ [prompt], stdin := ls\<rparr>))"

text \<open>
  The sqlite3 library is outside the program. Which of its calls raise
  \<^verbatim>\<open>sqlite3.Error\<close>, and with what message, is a parameter of every method: \<open>env c\<close> is
  the message of the error that call \<open>c\<close> raises, or \<open>None\<close> when it returns. A statement
  that raises has no effect. Every reason the engine has to refuse a statement (a
  missing table, a locked or full store, an integer overflow in \<^verbatim>\<open>SUM\<close>) is such an error.

  \<^verbatim>\<open>cursor.execute\<close> with parameters compiles the statement and opens the transaction,
  then binds the parameters, then runs the statement. The engine can refuse before the
  binding (\<open>Prepare n\<close>, for the \<open>n\<close>-th statement of a method) and after it (\<open>Execute n\<close>);
  the binding itself raises \<^verbatim>\<open>OverflowError\<close> for an integer outside 64 bits.
\<close>

datatype call = Connect | Cursor | Prepare nat | Execute nat | Commit | Fetchall

type_synonym engine = "call \<Rightarrow> string option"

definition no_error :: engine where
  "no_error = (\<lambda>c. None)"

definition engine_call :: "engine \<Rightarrow> call \<Rightarrow> unit io" where
  "engine_call env c w =
     (case env c of Some m \<Rightarrow> (Inl (Sqlite3Error m), w) | None \<Rightarrow> (Inr (), w))"

text \<open>Reading \<^verbatim>\<open>self.conn\<close> raises \<^verbatim>\<open>AttributeError\<close> when the attribute was never set.\<close>

definition self_conn :: "database io" where
  "self_conn w = (case conn w of None \<Rightarrow> (Inl AttributeError, w) | Some d \<Rightarrow> (Inr d, w))"

definition execute :: "engine \<Rightarrow> nat \<Rightarrow> statement \<Rightarrow> unit io" where
  "execute env n stmt =
     bind_io (engine_call env (Prepare n)) (\<lambda>_.
     bind_io self_conn (\<lambda>d.
     bind_io (lift_io (stmt d)) (\<lambda>d'.
     bind_io (engine_call env (Execute n)) (\<lambda>_ w. (Inr (), w\<lparr>conn := Some d'\<rparr>)))))"

section \<open>SkillDatabase\<close>

text \<open>
  \<^verbatim>\<open>create_tables\<close>: both statements are \<^verbatim>\<open>CREATE TABLE IF NOT EXISTS\<close>; a store without
  the tables and a store with empty tables are the same \<open>database\<close>.
\<close>

definition create_tables :: "engine \<Rightarrow> unit io" where
  "create_tables env =
     bind_io self_conn (\<lambda>_.
     bind_io (engine_call env Cursor) (\<lambda>_.
     bind_io (execute env 0 Inr) (\<lambda>_.
     bind_io (execute env 1 Inr) (\<lambda>_.
     engine_call env Commit))))"

text \<open>\<^verbatim>\<open>__init__\<close>; \<open>store\<close> is the content of the file \<^verbatim>\<open>db_name\<close> when it is opened.\<close>

definition connect :: "engine \<Rightarrow> database \<Rightarrow> unit io" where
  "connect env store =
     bind_io (engine_call env Connect) (\<lambda>_ w. (Inr (), w\<lparr>conn := Some store\<rparr>))"

definition SkillDatabase_init :: "engine \<Rightarrow> database \<Rightarrow> unit io" where
  "SkillDatabase_init env store =
     except_sqlite3_Error
       (bind_io (connect env store) (\<lambda>_. create_tables env))
       (\<lambda>e. print (''Database connection error: '' @ e))"

definition add_skill :: "engine \<Rightarrow> Skill \<Rightarrow> unit io" where
  "add_skill env skill =
     except_sqlite3_Error
       (bind_io self_conn (\<lambda>_.
        bind_io (engine_call env Cursor) (\<lambda>_.
        bind_io (execute env 0
                   (insert_skills (sk_name skill) (sk_category skill) (sk_target_hours skill))) (\<lambda>_.
        engine_call env Commit))))
       (\<lambda>e. print (''Failed to add skill: '' @ e))"

definition log_session :: "engine \<Rightarrow> PracticeSession \<Rightarrow> unit io" where
  "log_session env session =
     except_sqlite3_Error
       (bind_io self_conn (\<lambda>_.
        bind_io (engine_call env Cursor) (\<lambda>_.
        bind_io (execute env 0
                   (insert_sessions (ps_skill_id session) (ps_duration_minutes session)
                      (ps_notes session) (ps_date session))) (\<lambda>_.
        engine_call env Commit))))
       (\<lambda>e. print (''Failed to log session: '' @ e))"

text \<open>
  In both methods an \<^verbatim>\<open>OverflowError\<close> of the binding passes the \<^verbatim>\<open>except sqlite3.Error\<close>
  and reaches the caller.

  The dictionary that \<^verbatim>\<open>get_progress\<close> builds for a row; its four keys are fixed.
  \<^verbatim>\<open>'Progress %'\<close> is a float or the int \<^verbatim>\<open>0\<close>.
\<close>

datatype number = PyInt int | PyFloat float

record progress =
  Skill :: string
  Target_Hours :: int
  Total_Practiced :: float
  Progress_pct :: number

definition progress_of_row :: "progress_row \<Rightarrow> exn + progress" where
  "progress_of_row r =
     (case r of (r0, r1, r2, r3) \<Rightarrow>
        (case (if r2 \<noteq> 0
               then (case truediv r3 r2 of
                       Inl e \<Rightarrow> Inl e
                     | Inr q \<Rightarrow> Inr (PyFloat (py_round (mul q 100) 2)))
               else Inr (PyInt 0)) of
           Inl e \<Rightarrow> Inl e
         | Inr p \<Rightarrow>
             Inr \<lparr>Skill = r1, Target_Hours = r2, Total_Practiced = py_round r3 2,
                  Progress_pct = p\<rparr>))"

text \<open>\<^verbatim>\<open>list(map(f, rows))\<close>: the first row on which \<open>f\<close> raises ends it.\<close>

fun list_map :: "('a \<Rightarrow> exn + 'b) \<Rightarrow> 'a list \<Rightarrow> exn + 'b list" where
  "list_map f [] = Inr []"
| "list_map f (r # rs) =
     (case f r of
        Inl e \<Rightarrow> Inl e
      | Inr p \<Rightarrow> (case list_map f rs of Inl e \<Rightarrow> Inl e | Inr ps \<Rightarrow> Inr (p # ps)))"

text \<open>
  \<^verbatim>\<open>get_progress\<close>: its query has no parameters, so nothing is bound between its
  compilation and its run, and one point of refusal stands for both.
\<close>

definition get_progress :: "engine \<Rightarrow> progress list io" where
  "get_progress env =
     bind_io self_conn (\<lambda>d.
     bind_io (engine_call env Cursor) (\<lambda>_.
     bind_io (engine_call env (Execute 0)) (\<lambda>_.
     bind_io (engine_call env Fetchall) (\<lambda>_.
     lift_io (list_map progress_of_row (select_progress d))))))"

definition delete_skill :: "engine \<Rightarrow> int \<Rightarrow> unit io" where
  "delete_skill env skill_id =
     except_sqlite3_Error
       (bind_io self_conn (\<lambda>_.
        bind_io (engine_call env Cursor) (\<lambda>_.
        bind_io (execute env 0 (delete_sessions skill_id)) (\<lambda>_.
        bind_io (execute env 1 (delete_skills skill_id)) (\<lambda>_.
        engine_call env Commit)))))
       (\<lambda>e. print (''Failed to delete skill: '' @ e))"

section \<open>SkillTracker\<close>

subsection \<open>Reading integers\<close>

text \<open>
  Python's \<^verbatim>\<open>int(s)\<close> on a string, base 10: surrounding whitespace is dropped, a sign may
  follow, then digits, where single underscores may stand between digits. Anything else
  raises \<^verbatim>\<open>ValueError\<close>.

  A character is a code point below 256. Of these, \<^verbatim>\<open>int\<close> drops as whitespace the six
  ASCII ones, tab to carriage return and the space, and the two beyond ASCII that it
  first turns into a space, \<^verbatim>\<open>U+0085\<close> and \<^verbatim>\<open>U+00A0\<close>; it does not drop the separators
  \<^verbatim>\<open>U+001C\<close> to \<^verbatim>\<open>U+001F\<close>, which \<^verbatim>\<open>str.strip\<close> would. The only decimal digits below 256
  are \<^verbatim>\<open>0\<close> to \<^verbatim>\<open>9\<close>.

  The interpreter limits the number of digits that \<^verbatim>\<open>int\<close> converts: with the limit
  \<open>max_str_digits\<close> (4300 unless configured; 0 for none, as in interpreters without the
  limit; otherwise at least 640), a string with more digits than that, and more than
  640, raises \<^verbatim>\<open>ValueError\<close> too. Leading zeros count; underscores, the sign and the
  whitespace do not.
\<close>

definition is_space :: "char \<Rightarrow> bool" where
  "is_space c = (c \<in> set [CHR 0x09, CHR 0x0A, CHR 0x0B, CHR 0x0C, CHR 0x0D, CHR '' '',
                            CHR 0x85, CHR 0xA0])"

definition strip :: "string \<Rightarrow> string" where
  "strip s = rev (dropWhile is_space (rev (dropWhile is_space s)))"

definition is_digit :: "char \<Rightarrow> bool" where
  "is_digit c = (48 \<le> (of_char c :: nat) \<and> (of_char c :: nat) \<le> 57)"

definition digit_value :: "char \<Rightarrow> nat" where
  "digit_value c = of_char c - 48"

fun digits :: "nat \<Rightarrow> string \<Rightarrow> nat option" where
  "digits acc [] = Some acc"
| "digits acc [c] = (if is_digit c then Some (10 * acc + digit_value c) else None)"
| "digits acc (c # c' # cs) =
     (if is_digit c then digits (10 * acc + digit_value c) (c' # cs)
      else if c = CHR ''_'' \<and> is_digit c' then digits (10 * acc + digit_value c') cs
      else None)"

definition py_digits :: "string \<Rightarrow> nat option" where
  "py_digits s = (case s of [] \<Rightarrow> None
                  | c # cs \<Rightarrow> if is_digit c then digits (digit_value c) cs else None)"

definition exceeds :: "nat \<Rightarrow> string \<Rightarrow> bool" where
  "exceeds max_str_digits s =
     (640 < length (filter is_digit s) \<and> 0 < max_str_digits \<and>
      max_str_digits < length (filter is_digit s))"

definition py_int :: "nat \<Rightarrow> string \<Rightarrow> exn + int" where
  "py_int max_str_digits s =
     (case (case strip s of
              [] \<Rightarrow> None
            | c # cs \<Rightarrow>
                if c = CHR ''-'' then map_option (\<lambda>n. - int n) (py_digits cs)
                else if c = CHR ''+'' then map_option int (py_digits cs)
                else map_option int (py_digits (c # cs))) of
        None \<Rightarrow> Inl ValueError
      | Some n \<Rightarrow> if exceeds max_str_digits s then Inl ValueError else Inr n)"

subsection \<open>The clock\<close>

text \<open>
  \<^verbatim>\<open>datetime.now()\<close> is a parameter of the loop body; only its date is used.
  \<^verbatim>\<open>strftime('%Y-%m-%d')\<close> writes four digits of the year and two of month and day; the
  years of a clock are between 1000 and 9999.
\<close>

record datetime =
  year :: nat
  month :: nat
  day :: nat

definition digit_char :: "nat \<Rightarrow> char" where
  "digit_char n = char_of (48 + n mod 10)"

definition strftime_Ymd :: "datetime \<Rightarrow> string" where
  "strftime_Ymd t =
     [digit_char (year t div 1000), digit_char (year t div 100), digit_char (year t div 10),
      digit_char (year t)] @ ''-'' @
     [digit_char (month t div 10), digit_char (month t)] @ ''-'' @
     [digit_char (day t div 10), digit_char (day t)]"

text \<open>Reading an ISO date back: \<^verbatim>\<open>YYYY-MM-DD\<close>, ten characters, digits around two hyphens.\<close>

definition decimal :: "string \<Rightarrow> nat" where
  "decimal s = foldl (\<lambda>a c. 10 * a + digit_value c) 0 s"

definition parse_iso_date :: "string \<Rightarrow> (nat \<times> nat \<times> nat) option" where
  "parse_iso_date s =
     (if length s = 10 \<and> s ! 4 = CHR ''-'' \<and> s ! 7 = CHR ''-'' \<and>
         list_all is_digit (take 4 s @ take 2 (drop 5 s) @ drop 8 s)
      then Some (decimal (take 4 s), decimal (take 2 (drop 5 s)), decimal (drop 8 s))
      else None)"

subsection \<open>The menu loop\<close>

text \<open>
  The branches of \<^verbatim>\<open>run\<close> for the choices 1 to 4, and one pass through the body of its
  \<^verbatim>\<open>while True\<close>: the result is \<open>False\<close> on \<^verbatim>\<open>break\<close>. The f-string of choice 3 formats
  numbers by the runtime and is the parameter \<open>fmt\<close>; \<open>maxd\<close> is the interpreter's limit on
  the digits of \<^verbatim>\<open>int\<close>. The handlers catch \<^verbatim>\<open>ValueError\<close> only: an \<^verbatim>\<open>OverflowError\<close> from
  the storage method leaves the branch, and with it the loop.
\<close>

definition option_1 :: "nat \<Rightarrow> engine \<Rightarrow> unit io" where
  "option_1 maxd env =
     except_ValueError
       (bind_io (input ''Skill Name: '') (\<lambda>name.
        bind_io (input ''Category (Tech, Creative, etc.): '') (\<lambda>category.
        bind_io (input ''Target Hours: '') (\<lambda>t.
        bind_io (lift_io (py_int maxd t)) (\<lambda>target_hours.
        add_skill env \<lparr>sk_id = None, sk_name = name, sk_category = category,
                       sk_target_hours = target_hours\<rparr>)))))
       (print ''Invalid input for target hours.'')"

definition option_2 :: "nat \<Rightarrow> engine \<Rightarrow> datetime \<Rightarrow> unit io" where
  "option_2 maxd env now =
     except_ValueError
       (bind_io (input ''Skill ID: '') (\<lambda>a.
        bind_io (lift_io (py_int maxd a)) (\<lambda>skill_id.
        bind_io (input ''Duration (in minutes): '') (\<lambda>b.
        bind_io (lift_io (py_int maxd b)) (\<lambda>duration.
        bind_io (input ''Notes: '') (\<lambda>notes.
        bind_io (input ''Date (YYYY-MM-DD): '') (\<lambda>dt.
        log_session env
          \<lparr>ps_id = None, ps_skill_id = skill_id, ps_duration_minutes = duration,
           ps_notes = notes, ps_date = (if dt \<noteq> [] then dt else strftime_Ymd now)\<rparr>)))))))
       (print ''Invalid input. Please enter numbers where required.'')"

fun print_all :: "string list \<Rightarrow> unit io" where
  "print_all [] = return_io ()"
| "print_all (l # ls) = bind_io (print l) (\<lambda>_. print_all ls)"

definition option_3 :: "engine \<Rightarrow> (progress \<Rightarrow> string) \<Rightarrow> unit io" where
  "option_3 env fmt = bind_io (get_progress env) (\<lambda>ps. print_all (map fmt ps))"

definition option_4 :: "nat \<Rightarrow> engine \<Rightarrow> unit io" where
  "option_4 maxd env =
     except_ValueError
       (bind_io (input ''Enter Skill ID to delete: '') (\<lambda>a.
        bind_io (lift_io (py_int maxd a)) (\<lambda>skill_id.
        delete_skill env skill_id)))
       (print ''Invalid skill ID.'')"

definition menu :: "string list" where
  "menu = [''\<newline>SkillVault Menu:'', ''1. Add a New Skill'', ''2. Log Practice Session'',
           ''3. View Progress'', ''4. Delete Skill'', ''5. Exit'']"

definition menu_iteration ::
    "nat \<Rightarrow> engine \<Rightarrow> datetime \<Rightarrow> (progress \<Rightarrow> string) \<Rightarrow> bool io" where
  "menu_iteration maxd env now fmt =
     bind_io (print_all menu) (\<lambda>_.
     bind_io (input ''Choose an option: '') (\<lambda>choice.
       if choice = ''1'' then bind_io (option_1 maxd env) (\<lambda>_. return_io True)
       else if choice = ''2'' then bind_io (option_2 maxd env now) (\<lambda>_. return_io True)
       else if choice = ''3'' then bind_io (option_3 env fmt) (\<lambda>_. return_io True)
       else if choice = ''4'' then bind_io (option_4 maxd env) (\<lambda>_. return_io True)
       else if choice = ''5'' then return_io False
       else bind_io (print ''Invalid choice.'') (\<lambda>_. return_io True)))"

text \<open>
  \<^verbatim>\<open>run\<close>: the loop repeats the pass until \<^verbatim>\<open>break\<close> or an exception. Pass \<open>n\<close> meets the
  engine \<open>envs n\<close> and reads the clock \<open>clock n\<close>. Every pass that does not raise has
  read a line, and the console holds finitely many, so the loop ends: at the latest
  with \<^verbatim>\<open>EOFError\<close>.
\<close>

function run ::
    "nat \<Rightarrow> (nat \<Rightarrow> engine) \<Rightarrow> (nat \<Rightarrow> datetime) \<Rightarrow> (progress \<Rightarrow> string) \<Rightarrow> nat \<Rightarrow> unit io" where
  "run maxd envs clock fmt n w =
     (case menu_iteration maxd (envs n) (clock n) fmt w of
        (Inl e, w') \<Rightarrow> (Inl e, w')
      | (Inr again, w') \<Rightarrow> if again then run maxd envs clock fmt (Suc n) w' else (Inr (), w'))"
  by pat_completeness auto

text \<open>An action that does not add lines to the console's input.\<close>

definition keeps_stdin :: "'a io \<Rightarrow> bool" where
  "keeps_stdin m = (\<forall>w. length (stdin (snd (m w))) \<le> length (stdin w))"

section \<open>What the claims speak of\<close>

text \<open>
  The sum of \<^verbatim>\<open>duration_minutes\<close> over all sessions with a given skill id, and the
  constraint of \<^verbatim>\<open>id INTEGER PRIMARY KEY\<close> on the skills table: its rows are stored by
  ascending id and no id occurs twice.
\<close>

definition minutes_of :: "database \<Rightarrow> int \<Rightarrow> int" where
  "minutes_of d k =
     sum_list (map sessions_duration_minutes (filter (\<lambda>x. sessions_skill_id x = k) (sessions d)))"

definition practiced_hours :: "database \<Rightarrow> int \<Rightarrow> float" where
  "practiced_hours d k = sql_div_real (minutes_of d k) 60"

definition primary_key :: "database \<Rightarrow> bool" where
  "primary_key d = sorted_wrt (<) (map skills_id (skills d))"

subsection \<open>Concrete states\<close>

definition example_database :: database where
  "example_database =
     \<lparr>skills =
        [\<lparr>skills_id = 1, skills_name = ''Piano'', skills_category = ''Creative'',
          skills_target_hours = 20\<rparr>,
         \<lparr>skills_id = 2, skills_name = ''Rust'', skills_category = ''Tech'',
          skills_target_hours = 10\<rparr>,
         \<lparr>skills_id = 4, skills_name = ''Chess'', skills_category = ''Games'',
          skills_target_hours = 0\<rparr>],
      skills_seq = 4,
      sessions =
        [\<lparr>sessions_id = 1, sessions_skill_id = 2, sessions_duration_minutes = 150,
          sessions_notes = ''ownership'', sessions_date = ''2024-05-01''\<rparr>,
         \<lparr>sessions_id = 2, sessions_skill_id = 1, sessions_duration_minutes = 45,
          sessions_notes = ''scales'', sessions_date = ''2024-05-02''\<rparr>,
         \<lparr>sessions_id = 3, sessions_skill_id = 2, sessions_duration_minutes = 300,
          sessions_notes = ''traits'', sessions_date = ''2024-05-03''\<rparr>],
      sessions_seq = 3\<rparr>"

definition example_world :: world where
  "example_world = \<lparr>conn = Some example_database, stdout = [], stdin = []\<rparr>"

text \<open>A session logged against an id that no skill has: the foreign key is not enforced.\<close>

definition orphan_database :: database where
  "orphan_database =
     \<lparr>skills = [], skills_seq = 0,
      sessions = [\<lparr>sessions_id = 1, sessions_skill_id = 7, sessions_duration_minutes = 30,
                   sessions_notes = ''scales'', sessions_date = ''2024-05-01''\<rparr>],
      sessions_seq = 1\<rparr>"

definition orphan_world :: world where
  "orphan_world = \<lparr>conn = Some orphan_database, stdout = [], stdin = []\<rparr>"

text \<open>
  Two sessions of one skill whose minutes add up beyond 64 bits, and the engine's
  answer to a statement that adds them: it refuses it with \<^verbatim>\<open>integer overflow\<close>.
\<close>

definition overflow_database :: database where
  "overflow_database =
     \<lparr>skills = [\<lparr>skills_id = 1, skills_name = ''Piano'', skills_category = ''Creative'',
                 skills_target_hours = 20\<rparr>],
      skills_seq = 1,
      sessions =
        [\<lparr>sessions_id = 1, sessions_skill_id = 1,
          sessions_duration_minutes = 9223372036854775807,
          sessions_notes = ''scales'', sessions_date = ''2024-05-01''\<rparr>,
         \<lparr>sessions_id = 2, sessions_skill_id = 1,
          sessions_duration_minutes = 9223372036854775807,
          sessions_notes = ''chords'', sessions_date = ''2024-05-02''\<rparr>],
      sessions_seq = 2\<rparr>"

definition overflow_world :: world where
  "overflow_world = \<lparr>conn = Some overflow_database, stdout = [], stdin = []\<rparr>"

definition overflow_engine :: engine where
  "overflow_engine = (\<lambda>c. if c = Execute 0 then Some ''integer overflow'' else None)"

text \<open>A store that was just created, and the records of the round trip.\<close>

definition fresh_world :: world where
  "fresh_world = \<lparr>conn = Some empty_database, stdout = [], stdin = []\<rparr>"

definition piano :: Skill where
  "piano = \<lparr>sk_id = None, sk_name = ''Piano'', sk_category = ''Creative'', sk_target_hours = 20\<rparr>"

definition practice :: PracticeSession where
  "practice = \<lparr>ps_id = None, ps_skill_id = 1, ps_duration_minutes = 60,
                ps_notes = ''arpeggios'', ps_date = ''2024-05-04''\<rparr>"

text \<open>A date, and the example state with lines waiting on the console.\<close>

definition today :: datetime where
  "today = \<lparr>year = 2026, month = 11, day = 4\<rparr>"

definition typing :: "string list \<Rightarrow> world" where
  "typing lines = example_world\<lparr>stdin := lines\<rparr>"

section \<open>The progress query computes the per-skill sums\<close>

lemma join_skill_nonempty: "join_skill s xs \<noteq> []"
  by (simp add: join_skill_def split: list.splits)

lemma fst_join_skill: "j \<in> set (join_skill s xs) \<Longrightarrow> fst j = s"
  by (auto simp: join_skill_def split: list.splits)

lemma map_filter_Some: "List.map_filter (\<lambda>v. v) (map (\<lambda>x. Some (f x)) ms) = map f ms"
  by (induction ms) (simp_all add:)

lemma sum_join_skill:
  "ifnull (sql_sum (map (\<lambda>r. map_option sessions_duration_minutes (snd r)) (join_skill s xs))) 0 =
   sum_list (map sessions_duration_minutes (filter (\<lambda>x. sessions_skill_id x = skills_id s) xs))"
proof -
  have eq: "filter (\<lambda>x. skills_id s = sessions_skill_id x) xs = filter (\<lambda>x. sessions_skill_id x = skills_id s) xs"
    by (rule filter_cong) auto
  show ?thesis
  proof (cases "filter (\<lambda>x. sessions_skill_id x = skills_id s) xs")
    case Nil
    then show ?thesis
      by (simp add: join_skill_def eq sql_sum_def ifnull_def)
  next
    case (Cons m ms)
    have "List.map_filter (\<lambda>v. v) (map (\<lambda>x. Some (sessions_duration_minutes x)) (m # ms))
          = map sessions_duration_minutes (m # ms)"
      by (rule map_filter_Some)
    then show ?thesis using Cons
      by (simp add: join_skill_def eq sql_sum_def ifnull_def o_def)
  qed
qed

lemma remdups_replicate_append:
  "0 < n \<Longrightarrow> a \<notin> set r \<Longrightarrow> remdups (replicate n a @ r) = a # remdups r"
proof (induction n)
  case 0 then show ?case by simp
next
  case (Suc n) then show ?case by (cases n) auto
qed

lemma keys_join_skill:
  "map (\<lambda>j. skills_id (fst j)) (join_skill s xs) = replicate (length (join_skill s xs)) (skills_id s)"
proof -
  have "map (\<lambda>j. skills_id (fst j)) (join_skill s xs) = map (\<lambda>j. skills_id s) (join_skill s xs)"
    by (rule map_cong) (auto dest: fst_join_skill)
  then show ?thesis by (simp add: map_replicate_const)
qed

lemma left_join_Cons: "left_join (s # ss) xs = join_skill s xs @ left_join ss xs"
  by (simp add: left_join_def)

lemma set_keys_left_join:
  "set (map (\<lambda>j. skills_id (fst j)) (left_join ss xs)) \<subseteq> skills_id ` set ss"
  by (auto simp: left_join_def dest: fst_join_skill)

lemma remdups_keys_left_join:
  "distinct (map skills_id ss) \<Longrightarrow>
   remdups (map (\<lambda>j. skills_id (fst j)) (left_join ss xs)) = map skills_id ss"
proof (induction ss)
  case Nil then show ?case by (simp add: left_join_def)
next
  case (Cons s ss)
  have notin: "skills_id s \<notin> set (map (\<lambda>j. skills_id (fst j)) (left_join ss xs))"
    using Cons.prems set_keys_left_join [of ss xs] by auto
  have "0 < length (join_skill s xs)" using join_skill_nonempty by simp
  then show ?case using Cons notin
    by (simp add: left_join_Cons keys_join_skill remdups_replicate_append del: set_map)
qed

lemma filter_left_join:
  "distinct (map skills_id ss) \<Longrightarrow> s \<in> set ss \<Longrightarrow>
   filter (\<lambda>j. skills_id (fst j) = skills_id s) (left_join ss xs) = join_skill s xs"
proof (induction ss)
  case Nil then show ?case by simp
next
  case (Cons a ss)
  show ?case
  proof (cases "s = a")
    case True
    have "skills_id a \<notin> skills_id ` set ss" using Cons.prems by auto
    then have "filter (\<lambda>j. skills_id (fst j) = skills_id a) (left_join ss xs) = []"
      using set_keys_left_join [of ss xs] by (auto simp: filter_empty_conv)
    moreover have "filter (\<lambda>j. skills_id (fst j) = skills_id a) (join_skill a xs) = join_skill a xs"
      by (auto simp: filter_id_conv dest: fst_join_skill)
    ultimately show ?thesis using True by (simp add: left_join_Cons)
  next
    case False
    then have "s \<in> set ss" using Cons.prems by auto
    moreover have "skills_id a \<noteq> skills_id s" using Cons.prems \<open>s \<in> set ss\<close> by auto
    then have "filter (\<lambda>j. skills_id (fst j) = skills_id s) (join_skill a xs) = []"
      by (auto simp: filter_empty_conv dest: fst_join_skill)
    ultimately show ?thesis using Cons by (simp add: left_join_Cons)
  qed
qed

lemma select_group_join_skill:
  "select_group (join_skill s xs) =
   [(skills_id s, skills_name s, skills_target_hours s,
     sql_div_real (sum_list (map sessions_duration_minutes
        (filter (\<lambda>x. sessions_skill_id x = skills_id s) xs))) 60)]"
proof -
  obtain j js where js: "join_skill s xs = j # js"
    using join_skill_nonempty [of s xs] by (cases "join_skill s xs") auto
  then have "fst j = s" using fst_join_skill [of j s xs] by simp
  then show ?thesis
    using sum_join_skill [of s xs] js by (simp add: select_group_def)
qed

lemma select_progress_eq:
  assumes "primary_key d"
  shows "select_progress d =
     map (\<lambda>s. (skills_id s, skills_name s, skills_target_hours s,
                sql_div_real (minutes_of d (skills_id s)) 60)) (skills d)"
proof -
  let ?ss = "skills d" and ?xs = "sessions d"
  have srt: "sorted (map skills_id ?ss)" and dst: "distinct (map skills_id ?ss)"
    using assms by (auto simp: primary_key_def strict_sorted_iff)
  have keys: "sort (remdups (map (\<lambda>j. skills_id (fst j)) (left_join ?ss ?xs))) = map skills_id ?ss"
    using srt dst by (simp add: remdups_keys_left_join sorted_sort_id)
  have "select_progress d =
        concat (map (\<lambda>s. select_group (filter (\<lambda>j. skills_id (fst j) = skills_id s) (left_join ?ss ?xs))) ?ss)"
    by (simp add: select_progress_def group_by_def keys o_def)
  also have "\<dots> = concat (map (\<lambda>s. select_group (join_skill s ?xs)) ?ss)"
    using dst by (auto intro!: arg_cong [where f = concat] simp: filter_left_join)
  also have "\<dots> = map (\<lambda>s. (skills_id s, skills_name s, skills_target_hours s,
                sql_div_real (minutes_of d (skills_id s)) 60)) ?ss"
    by (induction ?ss) (simp_all add: select_group_join_skill minutes_of_def)
  finally show ?thesis .
qed

section \<open>Rounding: floats against exact decimals\<close>











section \<open>get_progress\<close>

lemma get_progress_no_error:
  "conn w = Some d \<Longrightarrow>
   get_progress no_error w = (list_map progress_of_row (select_progress d), w)"
  by (simp add: get_progress_def bind_io_def self_conn_def engine_call_def no_error_def lift_io_def)

lemma progress_of_row_Inr:
  "progress_of_row (i, n, t, h) =
     Inr \<lparr>Skill = n, Target_Hours = t, Total_Practiced = py_round h 2,
          Progress_pct = (if t = 0 then PyInt 0
                          else PyFloat (py_round (mul (fl (h / float_of_int t)) 100) 2))\<rparr>"
  by (simp add: progress_of_row_def truediv_def)

lemma progress_of_row_not_Inl: "progress_of_row r \<noteq> Inl e"
  by (cases r) (simp add: progress_of_row_Inr)

lemma list_map_Inr: "(\<And>r. f r = Inr (g r)) \<Longrightarrow> list_map f rs = Inr (map g rs)"
  by (induction rs) simp_all

lemma list_map_progress_not_Inl: "list_map progress_of_row rs \<noteq> Inl e"
proof (induction rs)
  case Nil then show ?case by simp
next
  case (Cons r rs)
  then show ?case
    by (cases r) (auto simp: progress_of_row_Inr split: sum.splits)
qed

lemma list_map_progress_of_row:
  "list_map progress_of_row (map (\<lambda>s. (skills_id s, skills_name s, skills_target_hours s, H s)) ss) =
   Inr (map (\<lambda>s. \<lparr>Skill = skills_name s, Target_Hours = skills_target_hours s,
                     Total_Practiced = py_round (H s) 2,
                     Progress_pct = (if skills_target_hours s = 0 then PyInt 0
                        else PyFloat (py_round (mul (fl (H s / float_of_int (skills_target_hours s))) 100) 2))\<rparr>) ss)"
  by (induction ss) (simp_all add: progress_of_row_Inr)

lemma get_progress_records:
  assumes "conn w = Some d" and "primary_key d"
  shows "get_progress no_error w =
    (Inr (map (\<lambda>s. \<lparr>Skill = skills_name s, Target_Hours = skills_target_hours s,
                     Total_Practiced = py_round (practiced_hours d (skills_id s)) 2,
                     Progress_pct = (if skills_target_hours s = 0 then PyInt 0
                        else PyFloat (py_round (mul (fl (practiced_hours d (skills_id s) /
                                float_of_int (skills_target_hours s))) 100) 2))\<rparr>) (skills d)), w)"
  using assms
  by (simp add: get_progress_no_error select_progress_eq list_map_progress_of_row practiced_hours_def)




lemma hours_450:
  "py_round (sql_div_real 450 60) 2 = 15 / 2"
  "py_round (mul (fl (sql_div_real 450 60 / float_of_int 10)) 100) 2 = 75"
  by code_simp+

text \<open>
  Claim C5. A skill with \<^verbatim>\<open>target_hours\<close> 10 whose sessions are exactly two, of 150 and of
  300 minutes (in either order), is reported with 7.5 hours practiced and 75.0 percent.
\<close>

theorem get_progress_example:
  assumes "conn w = Some d" and "primary_key d"
    and "i < length (skills d)" and "skills_target_hours (skills d ! i) = 10"
    and "map sessions_duration_minutes
           (filter (\<lambda>x. sessions_skill_id x = skills_id (skills d ! i)) (sessions d)) = [150, 300] \<or>
         map sessions_duration_minutes
           (filter (\<lambda>x. sessions_skill_id x = skills_id (skills d ! i)) (sessions d)) = [300, 150]"
  shows "\<exists>ps. get_progress no_error w = (Inr ps, w) \<and>
           ps ! i = \<lparr>Skill = skills_name (skills d ! i), Target_Hours = 10,
                     Total_Practiced = 15 / 2, Progress_pct = PyFloat 75\<rparr>"
proof -
  have "minutes_of d (skills_id (skills d ! i)) = 450"
    using assms(5) by (auto simp: minutes_of_def)
  then show ?thesis
    using assms(1-4) by (simp add: get_progress_records practiced_hours_def hours_450)
qed

lemma get_progress_no_ZeroDivisionError:
  "fst (get_progress env w) \<noteq> Inl ZeroDivisionError"
  by (auto simp: get_progress_def bind_io_def self_conn_def engine_call_def lift_io_def
      list_map_progress_not_Inl split: option.splits)

text \<open>
  Claim C6. \<^verbatim>\<open>get_progress\<close> never raises \<^verbatim>\<open>ZeroDivisionError\<close>, whatever the engine and the
  state. When it returns, \<^verbatim>\<open>'Progress %'\<close> of a skill is the int 0 when its \<^verbatim>\<open>target_hours\<close>
  is 0, and otherwise the practiced hours (not rounded) divided by \<^verbatim>\<open>target_hours\<close>, times
  100, rounded to two decimals.
\<close>

theorem get_progress_progress_pct:
  "fst (get_progress env w) \<noteq> Inl ZeroDivisionError \<and>
   (conn w = Some d \<and> primary_key d \<longrightarrow>
     (\<exists>ps. get_progress no_error w = (Inr ps, w) \<and>
        length ps = length (skills d) \<and>
        (\<forall>i<length (skills d).
           Progress_pct (ps ! i) =
             (let s = skills d ! i; h = sql_div_real (minutes_of d (skills_id s)) 60
              in if skills_target_hours s = 0 then PyInt 0
                 else PyFloat (py_round (mul (fl (h / float_of_int (skills_target_hours s))) 100) 2)))))"
  by (auto simp: get_progress_no_ZeroDivisionError get_progress_records practiced_hours_def Let_def)

section \<open>Inserting and deleting\<close>

lemma fold_max_ge_init: "(a::int) \<le> fold max ids a"
proof (induction ids arbitrary: a)
  case Nil then show ?case by simp
next
  case (Cons x ids)
  have "a \<le> max x a" by simp
  also have "\<dots> \<le> fold max ids (max x a)" by (rule Cons.IH)
  finally show ?case by simp
qed

lemma fold_max_ge_elem: "(x::int) \<in> set ids \<Longrightarrow> x \<le> fold max ids a"
proof (induction ids arbitrary: a)
  case Nil then show ?case by simp
next
  case (Cons y ids)
  show ?case
  proof (cases "x = y")
    case True
    have "x \<le> max y a" using True by simp
    also have "\<dots> \<le> fold max ids (max y a)" by (rule fold_max_ge_init)
    finally show ?thesis by simp
  next
    case False
    then show ?thesis using Cons by simp
  qed
qed

lemma next_rowid_greater: "x \<in> set ids \<Longrightarrow> x < next_rowid ids seq"
  using fold_max_ge_elem [of x ids "max seq 0"] by (simp add: next_rowid_def)

lemma next_rowid_fresh: "next_rowid ids seq \<notin> set ids"
  using next_rowid_greater [of "next_rowid ids seq" ids seq] by auto

lemma next_rowid_above_seq: "seq < next_rowid ids seq"
  using fold_max_ge_init [of "max seq 0" ids] by (simp add: next_rowid_def)

lemma primary_key_empty: "primary_key empty_database"
  by (simp add: primary_key_def empty_database_def)

text \<open>
  The statements keep the constraint, and a statement whose parameters fit in 64 bits
  does not raise.
\<close>

lemma primary_key_insert_skills:
  "insert_skills n c t d = Inr d' \<Longrightarrow> primary_key d \<Longrightarrow> primary_key d'"
  by (auto simp: primary_key_def insert_skills_def Let_def sorted_wrt_append next_rowid_greater
      split: if_splits)

lemma primary_key_insert_sessions:
  "insert_sessions k m n dt d = Inr d' \<Longrightarrow> primary_key d \<Longrightarrow> primary_key d'"
  by (auto simp: primary_key_def insert_sessions_def Let_def split: if_splits)

lemma primary_key_delete_sessions:
  "delete_sessions k d = Inr d' \<Longrightarrow> primary_key d \<Longrightarrow> primary_key d'"
  by (auto simp: primary_key_def delete_sessions_def split: if_splits)

lemma primary_key_delete_skills:
  "delete_skills k d = Inr d' \<Longrightarrow> primary_key d \<Longrightarrow> primary_key d'"
  by (auto simp: primary_key_def delete_skills_def sorted_wrt_map sorted_wrt_filter
      split: if_splits)

lemma execute_no_error:
  "conn w = Some d \<Longrightarrow> stmt d = Inr d' \<Longrightarrow> execute no_error n stmt w = (Inr (), w\<lparr>conn := Some d'\<rparr>)"
  by (simp add: execute_def bind_io_def self_conn_def engine_call_def lift_io_def no_error_def)

lemma execute_raises:
  "conn w = Some d \<Longrightarrow> stmt d = Inl e \<Longrightarrow> execute no_error n stmt w = (Inl e, w)"
  by (simp add: execute_def bind_io_def self_conn_def engine_call_def lift_io_def no_error_def)

lemma add_skill_no_error:
  "conn w = Some d \<Longrightarrow> int64 (sk_target_hours sk) \<Longrightarrow>
   add_skill no_error sk w =
     (Inr (), w\<lparr>conn := Some (d\<lparr>skills := skills d @
         [\<lparr>skills_id = next_rowid (map skills_id (skills d)) (skills_seq d),
           skills_name = sk_name sk, skills_category = sk_category sk,
           skills_target_hours = sk_target_hours sk\<rparr>],
         skills_seq := next_rowid (map skills_id (skills d)) (skills_seq d)\<rparr>)\<rparr>)"
  by (simp add: add_skill_def except_sqlite3_Error_def bind_io_def self_conn_def engine_call_def
      execute_def lift_io_def no_error_def insert_skills_def Let_def)

lemma log_session_no_error:
  "conn w = Some d \<Longrightarrow> int64 (ps_skill_id s) \<Longrightarrow> int64 (ps_duration_minutes s) \<Longrightarrow>
   log_session no_error s w =
     (Inr (), w\<lparr>conn := Some (d\<lparr>sessions := sessions d @
         [\<lparr>sessions_id = next_rowid (map sessions_id (sessions d)) (sessions_seq d),
           sessions_skill_id = ps_skill_id s, sessions_duration_minutes = ps_duration_minutes s,
           sessions_notes = ps_notes s, sessions_date = ps_date s\<rparr>],
         sessions_seq := next_rowid (map sessions_id (sessions d)) (sessions_seq d)\<rparr>)\<rparr>)"
  by (simp add: log_session_def except_sqlite3_Error_def bind_io_def self_conn_def engine_call_def
      execute_def lift_io_def no_error_def insert_sessions_def Let_def)

lemma delete_skill_no_error:
  "conn w = Some d \<Longrightarrow> int64 k \<Longrightarrow>
   delete_skill no_error k w =
     (Inr (), w\<lparr>conn := Some (d\<lparr>sessions := filter (\<lambda>x. sessions_skill_id x \<noteq> k) (sessions d),
                                 skills := filter (\<lambda>s. skills_id s \<noteq> k) (skills d)\<rparr>)\<rparr>)"
  by (simp add: delete_skill_def except_sqlite3_Error_def bind_io_def self_conn_def engine_call_def
      execute_def lift_io_def no_error_def delete_sessions_def delete_skills_def)

text \<open>
  A parameter outside 64 bits: the \<^verbatim>\<open>OverflowError\<close> of the binding is not caught by the
  method, and the database is as it was.
\<close>

lemma add_skill_overflow:
  "conn w = Some d \<Longrightarrow> \<not> int64 (sk_target_hours sk) \<Longrightarrow>
   add_skill no_error sk w = (Inl OverflowError, w)"
  by (simp add: add_skill_def except_sqlite3_Error_def bind_io_def self_conn_def engine_call_def
      execute_def lift_io_def no_error_def insert_skills_def)

lemma log_session_overflow:
  "conn w = Some d \<Longrightarrow> \<not> (int64 (ps_skill_id s) \<and> int64 (ps_duration_minutes s)) \<Longrightarrow>
   log_session no_error s w = (Inl OverflowError, w)"
  by (simp add: log_session_def except_sqlite3_Error_def bind_io_def self_conn_def engine_call_def
      execute_def lift_io_def no_error_def insert_sessions_def)

lemma delete_skill_overflow:
  "conn w = Some d \<Longrightarrow> \<not> int64 k \<Longrightarrow> delete_skill no_error k w = (Inl OverflowError, w)"
  by (simp add: delete_skill_def except_sqlite3_Error_def bind_io_def self_conn_def engine_call_def
      execute_def lift_io_def no_error_def delete_sessions_def)

text \<open>
  Claim C9. After \<^verbatim>\<open>add_skill\<close> of a skill with name \<open>N\<close> and a target \<open>T\<close> that the
  \<^verbatim>\<open>INTEGER\<close> column can hold, \<^verbatim>\<open>get_progress\<close> returns one record more than there were
  skills, and its last record has \<^verbatim>\<open>'Skill'\<close> = \<open>N\<close> and \<^verbatim>\<open>'Target Hours'\<close> = \<open>T\<close>.
\<close>

theorem add_skill_round_trip:
  assumes "conn w = Some d" and "primary_key d" and "int64 (sk_target_hours sk)"
  shows "\<exists>w' ps. add_skill no_error sk w = (Inr (), w') \<and>
           get_progress no_error w' = (Inr ps, w') \<and>
           length ps = length (skills d) + 1 \<and>
           Skill (last ps) = sk_name sk \<and> Target_Hours (last ps) = sk_target_hours sk"
proof -
  let ?d = "d\<lparr>skills := skills d @
      [\<lparr>skills_id = next_rowid (map skills_id (skills d)) (skills_seq d), skills_name = sk_name sk,
        skills_category = sk_category sk, skills_target_hours = sk_target_hours sk\<rparr>],
      skills_seq := next_rowid (map skills_id (skills d)) (skills_seq d)\<rparr>"
  let ?w = "w\<lparr>conn := Some ?d\<rparr>"
  have "insert_skills (sk_name sk) (sk_category sk) (sk_target_hours sk) d = Inr ?d"
    using assms(3) by (simp add: insert_skills_def Let_def)
  then have pk: "primary_key ?d" using assms(2) by (rule primary_key_insert_skills)
  have c: "conn ?w = Some ?d" by simp
  have sk: "skills ?d = skills d @
      [\<lparr>skills_id = next_rowid (map skills_id (skills d)) (skills_seq d), skills_name = sk_name sk,
        skills_category = sk_category sk, skills_target_hours = sk_target_hours sk\<rparr>]"
    by simp
  show ?thesis
    using add_skill_no_error [OF assms(1,3)] get_progress_records [OF c pk]
    by (simp add: sk)
qed

lemma length_filter_distinct_key:
  "distinct (map f xs) \<Longrightarrow> k \<in> f ` set xs \<Longrightarrow>
   length (filter (\<lambda>x. f x \<noteq> k) xs) = length xs - 1"
proof (induction xs)
  case Nil then show ?case by simp
next
  case (Cons a xs)
  show ?case
  proof (cases "f a = k")
    case True
    then have "k \<notin> f ` set xs" using Cons.prems(1) by auto
    then have "filter (\<lambda>x. f x \<noteq> k) xs = xs" by (auto simp: filter_id_conv)
    then show ?thesis using True by simp
  next
    case False
    then have in_xs: "k \<in> f ` set xs" using Cons.prems(2) by auto
    then have "xs \<noteq> []" by auto
    then have "0 < length xs" by simp
    moreover have "length (filter (\<lambda>x. f x \<noteq> k) xs) = length xs - 1"
      using Cons.IH Cons.prems(1) in_xs by simp
    ultimately show ?thesis using False by simp
  qed
qed

text \<open>
  Claim C4. When a skill with id \<open>X\<close> exists, \<^verbatim>\<open>delete_skill(X)\<close> returns normally; the
  skills table keeps exactly the rows with another id and the sessions table exactly
  the rows with another \<^verbatim>\<open>skill_id\<close>, unchanged and in order; both counters stay; and the
  rows that a following \<^verbatim>\<open>get_progress\<close> turns into records are one fewer, none for \<open>X\<close>.
  The id of a stored row is a rowid of the engine, a 64-bit integer.
\<close>

theorem delete_skill_removes:
  assumes "conn w = Some d" and "primary_key d" and "X \<in> skills_id ` set (skills d)"
    and "int64 X"
  shows "\<exists>d' ps. delete_skill no_error X w = (Inr (), w\<lparr>conn := Some d'\<rparr>) \<and>
           skills d' = filter (\<lambda>s. skills_id s \<noteq> X) (skills d) \<and>
           sessions d' = filter (\<lambda>x. sessions_skill_id x \<noteq> X) (sessions d) \<and>
           skills_seq d' = skills_seq d \<and> sessions_seq d' = sessions_seq d \<and>
           get_progress no_error (w\<lparr>conn := Some d'\<rparr>) = (Inr ps, w\<lparr>conn := Some d'\<rparr>) \<and>
           list_map progress_of_row (select_progress d') = Inr ps \<and>
           X \<notin> fst ` set (select_progress d') \<and>
           length ps = length (skills d) - 1"
proof -
  let ?d = "d\<lparr>sessions := filter (\<lambda>x. sessions_skill_id x \<noteq> X) (sessions d),
               skills := filter (\<lambda>s. skills_id s \<noteq> X) (skills d)\<rparr>"
  let ?w = "w\<lparr>conn := Some ?d\<rparr>"
  have pk: "primary_key ?d"
    using assms(2) by (simp add: primary_key_def sorted_wrt_map sorted_wrt_filter)
  have c: "conn ?w = Some ?d" by simp
  have dist: "distinct (map skills_id (skills d))"
    using assms(2) by (simp add: primary_key_def strict_sorted_iff)
  have len: "length (filter (\<lambda>s. skills_id s \<noteq> X) (skills d)) = length (skills d) - 1"
    using dist assms(3) by (rule length_filter_distinct_key)
  have sk: "skills ?d = filter (\<lambda>s. skills_id s \<noteq> X) (skills d)"
    and se: "sessions ?d = filter (\<lambda>x. sessions_skill_id x \<noteq> X) (sessions d)"
    and sq: "skills_seq ?d = skills_seq d" "sessions_seq ?d = sessions_seq d"
    by simp_all
  have rows: "X \<notin> fst ` set (select_progress ?d)"
    by (auto simp: select_progress_eq [OF pk] sk)
  have gp: "get_progress no_error ?w = (list_map progress_of_row (select_progress ?d), ?w)"
    using c by (rule get_progress_no_error)
  obtain ps where ps: "list_map progress_of_row (select_progress ?d) = Inr ps"
    using list_map_progress_not_Inl [of "select_progress ?d"]
    by (cases "list_map progress_of_row (select_progress ?d)") auto
  have "length ps = length (skills ?d)"
    using ps by (simp add: select_progress_eq [OF pk] list_map_progress_of_row) auto
  then have "length ps = length (skills d) - 1" by (simp add: sk len)
  then show ?thesis
    using delete_skill_no_error [OF assms(1,4)] sk se sq gp ps rows by auto
qed

text \<open>
  Claim C3, as amended. When no skill has the id, and the id is a 64-bit integer,
  \<^verbatim>\<open>delete_skill\<close> returns normally and prints nothing; the skills table is unchanged and
  the sessions table loses exactly the sessions that carry the id. When no session
  carries it either, the whole state is unchanged.
\<close>

theorem delete_skill_absent:
  assumes "conn w = Some d" and "\<forall>s\<in>set (skills d). skills_id s \<noteq> k" and "int64 k"
  shows "delete_skill no_error k w =
           (Inr (), w\<lparr>conn := Some (d\<lparr>sessions :=
                      filter (\<lambda>x. sessions_skill_id x \<noteq> k) (sessions d)\<rparr>)\<rparr>) \<and>
         ((\<forall>x\<in>set (sessions d). sessions_skill_id x \<noteq> k) \<longrightarrow>
            delete_skill no_error k w = (Inr (), w))"
proof -
  have "filter (\<lambda>s. skills_id s \<noteq> k) (skills d) = skills d"
    using assms(2) by (auto simp: filter_id_conv)
  then have d: "d\<lparr>sessions := filter (\<lambda>x. sessions_skill_id x \<noteq> k) (sessions d),
                   skills := filter (\<lambda>s. skills_id s \<noteq> k) (skills d)\<rparr> =
      d\<lparr>sessions := filter (\<lambda>x. sessions_skill_id x \<noteq> k) (sessions d)\<rparr>"
    by simp
  have "(\<forall>x\<in>set (sessions d). sessions_skill_id x \<noteq> k) \<Longrightarrow>
        filter (\<lambda>x. sessions_skill_id x \<noteq> k) (sessions d) = sessions d"
    by (auto simp: filter_id_conv)
  moreover have "w\<lparr>conn := Some d\<rparr> = w" using assms(1) by simp
  ultimately show ?thesis
    using delete_skill_no_error [OF assms(1,3)] by (auto simp: d)
qed

text \<open>
  Claim C3 as stated fails: with no skills and one session logged against id 7,
  \<^verbatim>\<open>delete_skill(7)\<close> returns normally and empties the sessions table. It fails a second
  way: \<^verbatim>\<open>delete_skill(2 ** 63)\<close>, an id that no skill can have, raises \<^verbatim>\<open>OverflowError\<close>.
\<close>

theorem delete_skill_absent_counterexample:
  "conn orphan_world = Some orphan_database \<and>
   map skills_id (skills orphan_database) = [] \<and>
   fst (delete_skill no_error 7 orphan_world) = Inr () \<and>
   map_option sessions (conn (snd (delete_skill no_error 7 orphan_world))) = Some [] \<and>
   map_option sessions (conn orphan_world) \<noteq> Some [] \<and>
   delete_skill no_error 9223372036854775808 orphan_world = (Inl OverflowError, orphan_world)"
  by (simp add: delete_skill_def except_sqlite3_Error_def bind_io_def self_conn_def engine_call_def
      execute_def lift_io_def no_error_def delete_sessions_def delete_skills_def int64_def
      orphan_world_def orphan_database_def)

text \<open>
  The four methods with a \<^verbatim>\<open>try\<close> never let a \<^verbatim>\<open>sqlite3.Error\<close> out: they print it
  and return. The engine's refusal of the \<^verbatim>\<open>INSERT\<close>, before or after the binding, is
  printed by \<^verbatim>\<open>add_skill\<close>.
\<close>

lemma except_sqlite3_Error_print:
  "fst (except_sqlite3_Error body (\<lambda>e. print (msg @ e)) w) \<noteq> Inl (Sqlite3Error m)"
  by (auto simp: except_sqlite3_Error_def print_def split: prod.splits sum.splits exn.splits)

lemma add_skill_suppresses: "fst (add_skill env sk w) \<noteq> Inl (Sqlite3Error m)"
  unfolding add_skill_def by (rule except_sqlite3_Error_print)

lemma log_session_suppresses: "fst (log_session env s w) \<noteq> Inl (Sqlite3Error m)"
  unfolding log_session_def by (rule except_sqlite3_Error_print)

lemma delete_skill_suppresses: "fst (delete_skill env k w) \<noteq> Inl (Sqlite3Error m)"
  unfolding delete_skill_def by (rule except_sqlite3_Error_print)

lemma SkillDatabase_init_suppresses:
  "fst (SkillDatabase_init env store w) \<noteq> Inl (Sqlite3Error m)"
  unfolding SkillDatabase_init_def by (rule except_sqlite3_Error_print)

lemma add_skill_prints_error:
  "add_skill overflow_engine piano overflow_world =
     (Inr (), overflow_world\<lparr>stdout := [''Failed to add skill: integer overflow'']\<rparr>)"
  "add_skill (\<lambda>c. if c = Prepare 0 then Some ''no such table: skills'' else None) sk overflow_world =
     (Inr (), overflow_world\<lparr>stdout := [''Failed to add skill: no such table: skills'']\<rparr>)"
  by (simp_all add: add_skill_def except_sqlite3_Error_def bind_io_def self_conn_def
      engine_call_def execute_def lift_io_def print_def overflow_engine_def overflow_world_def
      insert_skills_def int64_def piano_def)

text \<open>
  The binding comes before the run of the statement: with a target beyond 64 bits, an
  engine that would refuse the run is not asked, and \<^verbatim>\<open>OverflowError\<close> is raised.
\<close>

lemma add_skill_binding_first:
  "add_skill overflow_engine (piano\<lparr>sk_target_hours := 9223372036854775808\<rparr>) overflow_world =
     (Inl OverflowError, overflow_world)"
  by (simp add: add_skill_def except_sqlite3_Error_def bind_io_def self_conn_def
      engine_call_def execute_def lift_io_def overflow_engine_def overflow_world_def
      insert_skills_def int64_def piano_def)

text \<open>
  Claim C2. \<^verbatim>\<open>get_progress\<close> has no \<^verbatim>\<open>try\<close>: when the engine refuses its query, the
  \<^verbatim>\<open>sqlite3.Error\<close> reaches the caller.
\<close>

theorem get_progress_raises:
  "get_progress overflow_engine overflow_world =
     (Inl (Sqlite3Error ''integer overflow''), overflow_world)"
  by (simp add: get_progress_def bind_io_def self_conn_def engine_call_def overflow_engine_def
      overflow_world_def)

text \<open>
  Claim C10. \<^verbatim>\<open>add_skill\<close> and \<^verbatim>\<open>log_session\<close> do not read the \<^verbatim>\<open>id\<close> of their record:
  changing it, to \<^verbatim>\<open>None\<close> or to any integer, changes nothing. When the integers they do
  store are 64-bit, a row is inserted, and its id is the next rowid of the table, which
  no row of the table has.
\<close>

theorem insert_ignores_id:
  "add_skill env (sk\<lparr>sk_id := i\<rparr>) = add_skill env sk \<and>
   log_session env (s\<lparr>ps_id := j\<rparr>) = log_session env s \<and>
   (conn w = Some d \<and> int64 (sk_target_hours sk) \<longrightarrow>
      (\<exists>d'. add_skill no_error (sk\<lparr>sk_id := i\<rparr>) w = (Inr (), w\<lparr>conn := Some d'\<rparr>) \<and>
         skills d' = skills d @
           [\<lparr>skills_id = next_rowid (map skills_id (skills d)) (skills_seq d),
             skills_name = sk_name sk, skills_category = sk_category sk,
             skills_target_hours = sk_target_hours sk\<rparr>] \<and>
         next_rowid (map skills_id (skills d)) (skills_seq d) \<notin> skills_id ` set (skills d))) \<and>
   (conn w = Some d \<and> int64 (ps_skill_id s) \<and> int64 (ps_duration_minutes s) \<longrightarrow>
      (\<exists>d'. log_session no_error (s\<lparr>ps_id := j\<rparr>) w = (Inr (), w\<lparr>conn := Some d'\<rparr>) \<and>
         sessions d' = sessions d @
           [\<lparr>sessions_id = next_rowid (map sessions_id (sessions d)) (sessions_seq d),
             sessions_skill_id = ps_skill_id s, sessions_duration_minutes = ps_duration_minutes s,
             sessions_notes = ps_notes s, sessions_date = ps_date s\<rparr>] \<and>
         next_rowid (map sessions_id (sessions d)) (sessions_seq d) \<notin> sessions_id ` set (sessions d)))"
proof -
  have a: "add_skill env (sk\<lparr>sk_id := i\<rparr>) = add_skill env sk" for env
    by (simp add: add_skill_def)
  have l: "log_session env (s\<lparr>ps_id := j\<rparr>) = log_session env s" for env
    by (simp add: log_session_def)
  have f1: "next_rowid (map skills_id (skills d)) (skills_seq d) \<notin> skills_id ` set (skills d)"
    using next_rowid_fresh [of "map skills_id (skills d)" "skills_seq d"] by simp
  have f2: "next_rowid (map sessions_id (sessions d)) (sessions_seq d) \<notin> sessions_id ` set (sessions d)"
    using next_rowid_fresh [of "map sessions_id (sessions d)" "sessions_seq d"] by simp
  show ?thesis
    using f1 f2
    by (auto simp: a l add_skill_no_error log_session_no_error)
qed

section \<open>The theorems at concrete states\<close>

lemma example_conn: "conn example_world = Some example_database"
  by (simp add: example_world_def)

lemma example_primary_key: "primary_key example_database"
  by (simp add: primary_key_def example_database_def)

lemma example_minutes:
  "minutes_of example_database 1 = 45"
  "minutes_of example_database 2 = 450"
  "minutes_of example_database 4 = 0"
  by (simp_all add: minutes_of_def example_database_def)

lemma example_hours:
  "py_round (sql_div_real 45 60) 2 = 3 / 4"
  "py_round (sql_div_real 0 60) 2 = 0"
  "py_round (mul (fl (sql_div_real 45 60 / float_of_int 20)) 100) 2 = 15 / 4"
  by code_simp+

lemma example_skills:
  "length (skills example_database) = 3"
  "skills_id (skills example_database ! 0) = 1"
  "skills_id (skills example_database ! Suc 0) = 2"
  "skills_id (skills example_database ! 2) = 4"
  "skills_name (skills example_database ! 0) = ''Piano''"
  "skills_name (skills example_database ! Suc 0) = ''Rust''"
  "skills_name (skills example_database ! 2) = ''Chess''"
  "skills_target_hours (skills example_database ! 0) = 20"
  "skills_target_hours (skills example_database ! Suc 0) = 10"
  "skills_target_hours (skills example_database ! 2) = 0"
  by (simp_all add: example_database_def)


lemma example_durations:
  "map sessions_duration_minutes
     (filter (\<lambda>x. sessions_skill_id x = skills_id (skills example_database ! 1))
        (sessions example_database)) = [150, 300]"
  by (simp add: example_database_def)

theorem get_progress_example_witness:
  "conn example_world = Some example_database \<and> primary_key example_database \<and>
   1 < length (skills example_database) \<and>
   skills_target_hours (skills example_database ! 1) = 10 \<and>
   map sessions_duration_minutes
     (filter (\<lambda>x. sessions_skill_id x = skills_id (skills example_database ! 1))
        (sessions example_database)) = [150, 300] \<and>
   (\<exists>ps. get_progress no_error example_world = (Inr ps, example_world) \<and>
      ps ! 1 = \<lparr>Skill = ''Rust'', Target_Hours = 10, Total_Practiced = 15 / 2,
                Progress_pct = PyFloat 75\<rparr>)"
proof -
  have l: "1 < length (skills example_database)" and t: "skills_target_hours (skills example_database ! 1) = 10"
    by (simp_all add: example_skills)
  have n: "skills_name (skills example_database ! 1) = ''Rust''"
    by (simp add: example_skills)
  show ?thesis
    using get_progress_example [OF example_conn example_primary_key l t disjI1 [OF example_durations]]
      example_conn example_primary_key l t example_durations
    by (simp only: n)
qed

theorem get_progress_progress_pct_witness:
  "fst (get_progress overflow_engine example_world) \<noteq> Inl ZeroDivisionError \<and>
   conn example_world = Some example_database \<and> primary_key example_database \<and>
   (\<exists>ps. get_progress no_error example_world = (Inr ps, example_world) \<and> length ps = 3 \<and>
      Progress_pct (ps ! 0) = PyFloat (15 / 4) \<and>
      Progress_pct (ps ! 1) = PyFloat 75 \<and>
      Progress_pct (ps ! 2) = PyInt 0)"
proof -
  note inst = get_progress_progress_pct [of overflow_engine example_world example_database]
  have a: "fst (get_progress overflow_engine example_world) \<noteq> Inl ZeroDivisionError"
    using inst by (rule conjunct1)
  obtain ps where ps: "get_progress no_error example_world = (Inr ps, example_world)"
      "length ps = length (skills example_database)"
      "\<forall>i<length (skills example_database).
         Progress_pct (ps ! i) =
           (let s = skills example_database ! i;
                h = sql_div_real (minutes_of example_database (skills_id s)) 60
            in if skills_target_hours s = 0 then PyInt 0
               else PyFloat (py_round (mul (fl (h / float_of_int (skills_target_hours s))) 100) 2))"
    using inst example_conn example_primary_key by blast
  have "Progress_pct (ps ! 0) = PyFloat (15 / 4)"
    using ps(3) [rule_format, of 0]
    by (simp add: Let_def example_skills example_minutes example_hours)
  moreover have "Progress_pct (ps ! 1) = PyFloat 75"
    using ps(3) [rule_format, of 1]
    by (simp add: Let_def example_skills example_minutes hours_450)
  moreover have "Progress_pct (ps ! 2) = PyInt 0"
    using ps(3) [rule_format, of 2]
    by (simp add: Let_def example_skills example_minutes)
  ultimately show ?thesis
    using a ps(1,2) example_skills(1) example_conn example_primary_key by auto
qed

lemma fresh_conn: "conn fresh_world = Some empty_database"
  by (simp add: fresh_world_def)

lemma piano_int64: "int64 (sk_target_hours piano)"
  by (simp add: piano_def int64_def)

lemma practice_int64: "int64 (ps_skill_id practice)" "int64 (ps_duration_minutes practice)"
  by (simp_all add: practice_def int64_def)

theorem add_skill_round_trip_witness:
  "conn fresh_world = Some empty_database \<and> primary_key empty_database \<and>
   int64 (sk_target_hours piano) \<and>
   (\<exists>w' ps. add_skill no_error piano fresh_world = (Inr (), w') \<and>
      get_progress no_error w' = (Inr ps, w') \<and> length ps = 1 \<and>
      Skill (last ps) = ''Piano'' \<and> Target_Hours (last ps) = 20)"
  using add_skill_round_trip [OF fresh_conn primary_key_empty piano_int64] fresh_conn
    primary_key_empty piano_int64
  by (simp add: piano_def empty_database_def)

lemma example_has_2: "2 \<in> skills_id ` set (skills example_database)"
  by (simp add: example_database_def)

lemma int64_examples: "int64 1" "int64 2" "int64 3" "int64 60"
  by (simp_all add: int64_def)

theorem delete_skill_removes_witness:
  "conn example_world = Some example_database \<and> primary_key example_database \<and>
   2 \<in> skills_id ` set (skills example_database) \<and> int64 2 \<and>
   (\<exists>d' ps. delete_skill no_error 2 example_world = (Inr (), example_world\<lparr>conn := Some d'\<rparr>) \<and>
      map skills_id (skills d') = [1, 4] \<and> map sessions_id (sessions d') = [2] \<and>
      get_progress no_error (example_world\<lparr>conn := Some d'\<rparr>) =
        (Inr ps, example_world\<lparr>conn := Some d'\<rparr>) \<and>
      2 \<notin> fst ` set (select_progress d') \<and> length ps = 2)"
proof -
  obtain d' ps where d: "delete_skill no_error 2 example_world = (Inr (), example_world\<lparr>conn := Some d'\<rparr>)"
      "skills d' = filter (\<lambda>s. skills_id s \<noteq> 2) (skills example_database)"
      "sessions d' = filter (\<lambda>x. sessions_skill_id x \<noteq> 2) (sessions example_database)"
      "get_progress no_error (example_world\<lparr>conn := Some d'\<rparr>) = (Inr ps, example_world\<lparr>conn := Some d'\<rparr>)"
      "2 \<notin> fst ` set (select_progress d')"
      "length ps = length (skills example_database) - 1"
    using delete_skill_removes [OF example_conn example_primary_key example_has_2 int64_examples(2)]
    by blast
  have "map skills_id (skills d') = [1, 4]" "map sessions_id (sessions d') = [2]"
    by (simp_all add: d(2,3) example_database_def)
  then show ?thesis
    using d(1,4,5,6) example_skills(1) example_conn example_primary_key example_has_2
      int64_examples(2)
    by auto
qed

lemma example_lacks_3: "\<forall>s\<in>set (skills example_database). skills_id s \<noteq> 3"
  by (simp add: example_database_def)

theorem delete_skill_absent_witness:
  "conn example_world = Some example_database \<and> int64 3 \<and>
   3 \<notin> skills_id ` set (skills example_database) \<and>
   3 \<notin> sessions_skill_id ` set (sessions example_database) \<and>
   delete_skill no_error 3 example_world = (Inr (), example_world)"
proof -
  have s: "\<forall>x\<in>set (sessions example_database). sessions_skill_id x \<noteq> 3"
    by (simp add: example_database_def)
  then have "delete_skill no_error 3 example_world = (Inr (), example_world)"
    using delete_skill_absent [OF example_conn example_lacks_3 int64_examples(3)] by blast
  then show ?thesis
    using example_conn example_lacks_3 s int64_examples(3) by auto
qed

theorem insert_ignores_id_witness:
  "add_skill no_error (piano\<lparr>sk_id := Some 1\<rparr>) = add_skill no_error piano \<and>
   log_session no_error (practice\<lparr>ps_id := Some 1\<rparr>) = log_session no_error practice \<and>
   conn example_world = Some example_database \<and> int64 (sk_target_hours piano) \<and>
   int64 (ps_skill_id practice) \<and> int64 (ps_duration_minutes practice) \<and>
   (\<exists>d'. add_skill no_error (piano\<lparr>sk_id := Some 1\<rparr>) example_world =
            (Inr (), example_world\<lparr>conn := Some d'\<rparr>) \<and>
          map skills_id (skills d') = [1, 2, 4, 5]) \<and>
   (\<exists>d'. log_session no_error (practice\<lparr>ps_id := Some 1\<rparr>) example_world =
            (Inr (), example_world\<lparr>conn := Some d'\<rparr>) \<and>
          map sessions_id (sessions d') = [1, 2, 3, 4])"
proof -
  note inst = insert_ignores_id [where env = no_error and sk = piano and i = "Some 1" and s = practice
      and j = "Some 1" and w = example_world and d = example_database]
  have n1: "next_rowid (map skills_id (skills example_database)) (skills_seq example_database) = 5"
    and n2: "next_rowid (map sessions_id (sessions example_database)) (sessions_seq example_database) = 4"
    by (simp_all add: next_rowid_def example_database_def)
  have s1: "map skills_id (skills example_database) = [1, 2, 4]"
    and s2: "map sessions_id (sessions example_database) = [1, 2, 3]"
    by (simp_all add: example_database_def)
  from inst example_conn piano_int64 practice_int64 obtain d1 d2 where
      a: "add_skill no_error (piano\<lparr>sk_id := Some 1\<rparr>) = add_skill no_error piano"
      and l: "log_session no_error (practice\<lparr>ps_id := Some 1\<rparr>) = log_session no_error practice"
      and d1: "add_skill no_error (piano\<lparr>sk_id := Some 1\<rparr>) example_world =
                 (Inr (), example_world\<lparr>conn := Some d1\<rparr>)"
        "skills d1 = skills example_database @
           [\<lparr>skills_id = next_rowid (map skills_id (skills example_database)) (skills_seq example_database),
             skills_name = sk_name piano, skills_category = sk_category piano,
             skills_target_hours = sk_target_hours piano\<rparr>]"
      and d2: "log_session no_error (practice\<lparr>ps_id := Some 1\<rparr>) example_world =
                 (Inr (), example_world\<lparr>conn := Some d2\<rparr>)"
        "sessions d2 = sessions example_database @
           [\<lparr>sessions_id = next_rowid (map sessions_id (sessions example_database)) (sessions_seq example_database),
             sessions_skill_id = ps_skill_id practice, sessions_duration_minutes = ps_duration_minutes practice,
             sessions_notes = ps_notes practice, sessions_date = ps_date practice\<rparr>]"
    by blast
  have m1: "map skills_id (skills d1) = [1, 2, 4, 5]" by (simp add: d1(2) n1, simp add: s1)
  have m2: "map sessions_id (sessions d2) = [1, 2, 3, 4]" by (simp add: d2(2) n2, simp add: s2)
  have e1: "\<exists>d'. add_skill no_error (piano\<lparr>sk_id := Some 1\<rparr>) example_world =
            (Inr (), example_world\<lparr>conn := Some d'\<rparr>) \<and>
          map skills_id (skills d') = [1, 2, 4, 5]"
    by (rule exI [of _ d1]) (rule conjI [OF d1(1) m1])
  have e2: "\<exists>d'. log_session no_error (practice\<lparr>ps_id := Some 1\<rparr>) example_world =
            (Inr (), example_world\<lparr>conn := Some d'\<rparr>) \<and>
          map sessions_id (sessions d') = [1, 2, 3, 4]"
    by (rule exI [of _ d2]) (rule conjI [OF d2(1) m2])
  show ?thesis
    by (intro conjI) (rule a l example_conn piano_int64 practice_int64 e1 e2)+
qed

section \<open>The menu loop: rejected input and the default date\<close>

lemma print_all_eq: "print_all ls w = (Inr (), w\<lparr>stdout := stdout w @ ls\<rparr>)"
  by (induction ls arbitrary: w) (simp_all add: return_io_def bind_io_def print_def)

lemma menu_iteration_choice:
  "stdin w = c # rest \<Longrightarrow>
   menu_iteration maxd env now fmt w =
     (if c = ''1'' then bind_io (option_1 maxd env) (\<lambda>_. return_io True)
      else if c = ''2'' then bind_io (option_2 maxd env now) (\<lambda>_. return_io True)
      else if c = ''3'' then bind_io (option_3 env fmt) (\<lambda>_. return_io True)
      else if c = ''4'' then bind_io (option_4 maxd env) (\<lambda>_. return_io True)
      else if c = ''5'' then return_io False
      else bind_io (print ''Invalid choice.'') (\<lambda>_. return_io True))
     (w\<lparr>stdout := stdout w @ menu @ [''Choose an option: ''], stdin := rest\<rparr>)"
  unfolding menu_iteration_def
  by (simp add: bind_io_def [of "print_all menu"] bind_io_def [of "input ''Choose an option: ''"]
      print_all_eq input_def)

lemma option_1_invalid:
  "stdin w = name # category # t # rest \<Longrightarrow> py_int maxd t = Inl ValueError \<Longrightarrow>
   option_1 maxd env w =
     (Inr (), w\<lparr>stdout := stdout w @
         [''Skill Name: '', ''Category (Tech, Creative, etc.): '', ''Target Hours: '',
          ''Invalid input for target hours.''],
       stdin := rest\<rparr>)"
  by (simp add: option_1_def except_ValueError_def bind_io_def input_def lift_io_def print_def)

lemma option_2_invalid_skill_id:
  "stdin w = a # rest \<Longrightarrow> py_int maxd a = Inl ValueError \<Longrightarrow>
   option_2 maxd env now w =
     (Inr (), w\<lparr>stdout := stdout w @
         [''Skill ID: '', ''Invalid input. Please enter numbers where required.''],
       stdin := rest\<rparr>)"
  by (simp add: option_2_def except_ValueError_def bind_io_def input_def lift_io_def print_def)

lemma option_2_invalid_duration:
  "stdin w = a # b # rest \<Longrightarrow> py_int maxd a = Inr k \<Longrightarrow> py_int maxd b = Inl ValueError \<Longrightarrow>
   option_2 maxd env now w =
     (Inr (), w\<lparr>stdout := stdout w @
         [''Skill ID: '', ''Duration (in minutes): '',
          ''Invalid input. Please enter numbers where required.''],
       stdin := rest\<rparr>)"
  by (simp add: option_2_def except_ValueError_def bind_io_def input_def lift_io_def print_def)

lemma option_2_logs:
  "stdin w = a # b # notes # dt # rest \<Longrightarrow> py_int maxd a = Inr k \<Longrightarrow> py_int maxd b = Inr m \<Longrightarrow>
   conn w = Some d \<Longrightarrow> int64 k \<Longrightarrow> int64 m \<Longrightarrow>
   option_2 maxd no_error now w =
     (Inr (), w\<lparr>stdout := stdout w @
         [''Skill ID: '', ''Duration (in minutes): '', ''Notes: '', ''Date (YYYY-MM-DD): ''],
       stdin := rest,
       conn := Some (d\<lparr>sessions := sessions d @
         [\<lparr>sessions_id = next_rowid (map sessions_id (sessions d)) (sessions_seq d),
           sessions_skill_id = k, sessions_duration_minutes = m,
           sessions_notes = notes,
           sessions_date = (if dt \<noteq> [] then dt else strftime_Ymd now)\<rparr>],
         sessions_seq := next_rowid (map sessions_id (sessions d)) (sessions_seq d)\<rparr>)\<rparr>)"
  by (simp add: option_2_def except_ValueError_def bind_io_def input_def lift_io_def
      log_session_no_error)

lemma menu_iteration_1_invalid:
  assumes "stdin w = ''1'' # name # category # t # rest" and "py_int maxd t = Inl ValueError"
  shows "menu_iteration maxd env now fmt w =
        (Inr True, w\<lparr>stdout := stdout w @ menu @
            [''Choose an option: '', ''Skill Name: '', ''Category (Tech, Creative, etc.): '',
             ''Target Hours: '', ''Invalid input for target hours.''],
          stdin := rest\<rparr>)"
proof -
  let ?w = "w\<lparr>stdout := stdout w @ menu @ [''Choose an option: ''],
               stdin := name # category # t # rest\<rparr>"
  have "stdin ?w = name # category # t # rest" by simp
  from option_1_invalid [OF this assms(2), of env]
  have "bind_io (option_1 maxd env) (\<lambda>_. return_io True) ?w =
        (Inr True, w\<lparr>stdout := stdout w @ menu @
            [''Choose an option: '', ''Skill Name: '', ''Category (Tech, Creative, etc.): '',
             ''Target Hours: '', ''Invalid input for target hours.''],
          stdin := rest\<rparr>)"
    by (simp add: bind_io_def return_io_def)
  then show ?thesis
    by (simp add: menu_iteration_choice [OF assms(1)])
qed

lemma menu_iteration_2_invalid_skill_id:
  assumes "stdin w = ''2'' # a # rest" and "py_int maxd a = Inl ValueError"
  shows "menu_iteration maxd env now fmt w =
        (Inr True, w\<lparr>stdout := stdout w @ menu @
            [''Choose an option: '', ''Skill ID: '',
             ''Invalid input. Please enter numbers where required.''],
          stdin := rest\<rparr>)"
proof -
  let ?w = "w\<lparr>stdout := stdout w @ menu @ [''Choose an option: ''], stdin := a # rest\<rparr>"
  have "stdin ?w = a # rest" by simp
  from option_2_invalid_skill_id [OF this assms(2), of env now]
  have "bind_io (option_2 maxd env now) (\<lambda>_. return_io True) ?w =
        (Inr True, w\<lparr>stdout := stdout w @ menu @
            [''Choose an option: '', ''Skill ID: '',
             ''Invalid input. Please enter numbers where required.''],
          stdin := rest\<rparr>)"
    by (simp add: bind_io_def return_io_def)
  then show ?thesis
    by (simp add: menu_iteration_choice [OF assms(1)])
qed

lemma menu_iteration_2_invalid_duration:
  assumes "stdin w = ''2'' # a # b # rest" and "py_int maxd a = Inr k"
    and "py_int maxd b = Inl ValueError"
  shows "menu_iteration maxd env now fmt w =
        (Inr True, w\<lparr>stdout := stdout w @ menu @
            [''Choose an option: '', ''Skill ID: '', ''Duration (in minutes): '',
             ''Invalid input. Please enter numbers where required.''],
          stdin := rest\<rparr>)"
proof -
  let ?w = "w\<lparr>stdout := stdout w @ menu @ [''Choose an option: ''], stdin := a # b # rest\<rparr>"
  have "stdin ?w = a # b # rest" by simp
  from option_2_invalid_duration [OF this assms(2,3), of env now]
  have "bind_io (option_2 maxd env now) (\<lambda>_. return_io True) ?w =
        (Inr True, w\<lparr>stdout := stdout w @ menu @
            [''Choose an option: '', ''Skill ID: '', ''Duration (in minutes): '',
             ''Invalid input. Please enter numbers where required.''],
          stdin := rest\<rparr>)"
    by (simp add: bind_io_def return_io_def)
  then show ?thesis
    by (simp add: menu_iteration_choice [OF assms(1)])
qed

text \<open>
  Claim C7. In a pass that takes choice 1, when the line typed for the target hours is
  one on which \<^verbatim>\<open>int\<close> raises \<^verbatim>\<open>ValueError\<close>, the pass prints
  \<^verbatim>\<open>Invalid input for target hours.\<close> and goes on; in a pass that takes choice 2, when
  the line typed for the skill id, or the one for the duration, is such a line, it
  prints its message and goes on. In all three cases the connection and its database
  are untouched, whatever the engine would have done: only the console has changed.
\<close>

theorem invalid_integer_rejected:
  "(stdin w = ''1'' # name # category # t # rest \<and> py_int maxd t = Inl ValueError \<longrightarrow>
      menu_iteration maxd env now fmt w =
        (Inr True, w\<lparr>stdout := stdout w @ menu @
            [''Choose an option: '', ''Skill Name: '', ''Category (Tech, Creative, etc.): '',
             ''Target Hours: '', ''Invalid input for target hours.''],
          stdin := rest\<rparr>)) \<and>
   (stdin w = ''2'' # a # rest \<and> py_int maxd a = Inl ValueError \<longrightarrow>
      menu_iteration maxd env now fmt w =
        (Inr True, w\<lparr>stdout := stdout w @ menu @
            [''Choose an option: '', ''Skill ID: '',
             ''Invalid input. Please enter numbers where required.''],
          stdin := rest\<rparr>)) \<and>
   (stdin w = ''2'' # a # b # rest \<and> py_int maxd a = Inr k \<and> py_int maxd b = Inl ValueError \<longrightarrow>
      menu_iteration maxd env now fmt w =
        (Inr True, w\<lparr>stdout := stdout w @ menu @
            [''Choose an option: '', ''Skill ID: '', ''Duration (in minutes): '',
             ''Invalid input. Please enter numbers where required.''],
          stdin := rest\<rparr>))"
  using menu_iteration_1_invalid [of w name category t rest maxd env now fmt]
    menu_iteration_2_invalid_skill_id [of w a rest maxd env now fmt]
    menu_iteration_2_invalid_duration [of w a b rest maxd k env now fmt]
  by blast

lemma digit_value_digit_char: "digit_value (digit_char n) = n mod 10"
  by (simp add: digit_value_def digit_char_def)

lemma is_digit_digit_char: "is_digit (digit_char n)"
proof -
  have "n mod 10 < 10" by simp
  then show ?thesis by (simp add: is_digit_def digit_char_def)
qed

lemma four_digits:
  fixes n :: nat
  assumes "n < 10000"
  shows "10 * (10 * (10 * (n div 1000 mod 10) + n div 100 mod 10) + n div 10 mod 10) + n mod 10 = n"
proof -
  have d1: "n div 10 div 10 = n div 100" and d2: "n div 100 div 10 = n div 1000"
    by (simp_all add: div_mult2_eq [symmetric])
  have m0: "10 * (n div 10) + n mod 10 = n" by simp
  have m1: "10 * (n div 10 div 10) + n div 10 mod 10 = n div 10" by simp
  have m2: "10 * (n div 100 div 10) + n div 100 mod 10 = n div 100" by simp
  have "n div 1000 < 10" using assms by (simp add: less_mult_imp_div_less)
  then have m3: "n div 1000 mod 10 = n div 1000" by simp
  have "10 * (10 * (10 * (n div 1000) + n div 100 mod 10) + n div 10 mod 10) + n mod 10 = n"
    using m0 m1 [unfolded d1] m2 [unfolded d2] by simp
  then show ?thesis by (simp only: m3)
qed

lemma two_digits:
  fixes n :: nat
  assumes "n < 100"
  shows "10 * (n div 10 mod 10) + n mod 10 = n"
proof -
  have "n div 10 < 10" using assms by (simp add: less_mult_imp_div_less)
  then have "n div 10 mod 10 = n div 10" by simp
  then show ?thesis by simp
qed

lemma flatten_digits:
  "10 * (10 * (10 * a + b) + c) + e = n \<Longrightarrow> 1000 * a + 100 * b + 10 * c + e = (n::nat)"
  by arith

lemma parse_strftime:
  assumes "year t < 10000" and "month t < 100" and "day t < 100"
  shows "parse_iso_date (strftime_Ymd t) = Some (year t, month t, day t)"
proof -
  have y: "1000 * (year t div 1000 mod 10) + 100 * (year t div 100 mod 10) +
           10 * (year t div 10 mod 10) + year t mod 10 = year t"
    by (rule flatten_digits [OF four_digits [OF assms(1)]])
  show ?thesis
    by (simp add: parse_iso_date_def strftime_Ymd_def decimal_def digit_value_digit_char
        is_digit_digit_char y two_digits [OF assms(2)] two_digits [OF assms(3)])
qed

text \<open>
  Claim C8. In a pass that takes choice 2 with lines for skill id and duration that
  \<^verbatim>\<open>int\<close> reads as 64-bit integers, and an empty line for the date, the session is
  appended to the sessions table with the date \<^verbatim>\<open>strftime\<close> gives for the clock's
  reading; for a year of at most four digits that string reads back as an ISO date with
  the clock's year, month and day.
\<close>

theorem empty_date_defaults_to_today:
  assumes "stdin w = ''2'' # a # b # notes # [] # rest"
    and "py_int maxd a = Inr k" and "py_int maxd b = Inr m" and "conn w = Some d"
    and "int64 k" and "int64 m"
  shows "menu_iteration maxd no_error now fmt w =
           (Inr True,
            w\<lparr>stdout := stdout w @ menu @
                 [''Choose an option: '', ''Skill ID: '', ''Duration (in minutes): '',
                  ''Notes: '', ''Date (YYYY-MM-DD): ''],
              stdin := rest,
              conn := Some (d\<lparr>sessions := sessions d @
                 [\<lparr>sessions_id = next_rowid (map sessions_id (sessions d)) (sessions_seq d),
                   sessions_skill_id = k, sessions_duration_minutes = m,
                   sessions_notes = notes, sessions_date = strftime_Ymd now\<rparr>],
                 sessions_seq := next_rowid (map sessions_id (sessions d)) (sessions_seq d)\<rparr>)\<rparr>) \<and>
         (year now < 10000 \<and> month now < 100 \<and> day now < 100 \<longrightarrow>
            parse_iso_date (strftime_Ymd now) = Some (year now, month now, day now))"
proof -
  let ?w = "w\<lparr>stdout := stdout w @ menu @ [''Choose an option: ''],
               stdin := a # b # notes # [] # rest\<rparr>"
  have "stdin ?w = a # b # notes # [] # rest" and "conn ?w = Some d"
    using assms(4) by simp_all
  from option_2_logs [OF this(1) assms(2,3) this(2) assms(5,6), of now]
  have "bind_io (option_2 maxd no_error now) (\<lambda>_. return_io True) ?w =
          (Inr True,
            w\<lparr>stdout := stdout w @ menu @
                 [''Choose an option: '', ''Skill ID: '', ''Duration (in minutes): '',
                  ''Notes: '', ''Date (YYYY-MM-DD): ''],
              stdin := rest,
              conn := Some (d\<lparr>sessions := sessions d @
                 [\<lparr>sessions_id = next_rowid (map sessions_id (sessions d)) (sessions_seq d),
                   sessions_skill_id = k, sessions_duration_minutes = m,
                   sessions_notes = notes, sessions_date = strftime_Ymd now\<rparr>],
                 sessions_seq := next_rowid (map sessions_id (sessions d)) (sessions_seq d)\<rparr>)\<rparr>)"
    by (simp add: bind_io_def return_io_def)
  then show ?thesis
    by (simp add: menu_iteration_choice [OF assms(1)] parse_strftime)
qed

text \<open>
  \<^verbatim>\<open>int\<close> at some lines, under the default limit of 4300 digits. The separator
  \<^verbatim>\<open>U+001C\<close> is not dropped, the no-break space \<^verbatim>\<open>U+00A0\<close> is.
\<close>

lemma py_int_examples:
  "py_int 4300 ''ten'' = Inl ValueError"
  "py_int 4300 ''x'' = Inl ValueError"
  "py_int 4300 ''1h'' = Inl ValueError"
  "py_int 4300 ''1'' = Inr 1"
  "py_int 4300 '' 60'' = Inr 60"
  "py_int 4300 [CHR 0x1C, CHR ''7''] = Inl ValueError"
  "py_int 4300 [CHR ''7'', CHR 0x1F] = Inl ValueError"
  "py_int 4300 [CHR 0xA0, CHR ''5''] = Inr 5"
  "py_int 4300 ''-1_000'' = Inr (- 1000)"
  "py_int 4300 ''1__0'' = Inl ValueError"
  "py_int 4300 [] = Inl ValueError"
  by code_simp+

lemma py_int_beyond_int64:
  "py_int 4300 ''9223372036854775808'' = Inr 9223372036854775808"
  by (simp add: py_int_def strip_def is_space_def py_digits_def is_digit_def digit_value_def
      exceeds_def)

text \<open>More digits than the limit allows: \<^verbatim>\<open>ValueError\<close>, whatever the digits are.\<close>

lemma py_int_exceeds: "exceeds maxd s \<Longrightarrow> py_int maxd s = Inl ValueError"
  by (simp add: py_int_def split: option.splits)

lemma py_int_limit: "py_int 640 (replicate 641 (CHR ''1'')) = Inl ValueError"
  by (rule py_int_exceeds) (simp add: exceeds_def is_digit_def)

lemma today_examples:
  "strftime_Ymd today = ''2026-11-04''"
  "parse_iso_date ''2026-11-04'' = Some (2026, 11, 4)"
  by code_simp+

theorem invalid_integer_rejected_witness:
  "py_int 4300 ''ten'' = Inl ValueError \<and>
   menu_iteration 4300 overflow_engine today Skill (typing [''1'', ''Guitar'', ''Creative'', ''ten'', ''5'']) =
     (Inr True, example_world\<lparr>stdout := menu @
        [''Choose an option: '', ''Skill Name: '', ''Category (Tech, Creative, etc.): '',
         ''Target Hours: '', ''Invalid input for target hours.''],
        stdin := [''5'']\<rparr>) \<and>
   py_int 4300 ''x'' = Inl ValueError \<and>
   menu_iteration 4300 overflow_engine today Skill (typing [''2'', ''x'', ''5'']) =
     (Inr True, example_world\<lparr>stdout := menu @
        [''Choose an option: '', ''Skill ID: '',
         ''Invalid input. Please enter numbers where required.''],
        stdin := [''5'']\<rparr>) \<and>
   py_int 4300 ''1'' = Inr 1 \<and> py_int 4300 ''1h'' = Inl ValueError \<and>
   menu_iteration 4300 overflow_engine today Skill (typing [''2'', ''1'', ''1h'', ''5'']) =
     (Inr True, example_world\<lparr>stdout := menu @
        [''Choose an option: '', ''Skill ID: '', ''Duration (in minutes): '',
         ''Invalid input. Please enter numbers where required.''],
        stdin := [''5'']\<rparr>)"
proof -
  have s1: "stdin (typing [''1'', ''Guitar'', ''Creative'', ''ten'', ''5'']) =
            ''1'' # ''Guitar'' # ''Creative'' # ''ten'' # [''5'']"
    and s2: "stdin (typing [''2'', ''x'', ''5'']) = ''2'' # ''x'' # [''5'']"
    and s3: "stdin (typing [''2'', ''1'', ''1h'', ''5'']) = ''2'' # ''1'' # ''1h'' # [''5'']"
    by (simp_all add: typing_def)
  have o: "stdout (typing ls) = []" for ls
    by (simp add: typing_def example_world_def)
  have t: "typing ls\<lparr>stdout := out, stdin := rest\<rparr> = example_world\<lparr>stdout := out, stdin := rest\<rparr>"
    for ls out rest
    by (simp add: typing_def)
  have a: "menu_iteration 4300 overflow_engine today Skill (typing [''1'', ''Guitar'', ''Creative'', ''ten'', ''5'']) =
     (Inr True, example_world\<lparr>stdout := menu @
        [''Choose an option: '', ''Skill Name: '', ''Category (Tech, Creative, etc.): '',
         ''Target Hours: '', ''Invalid input for target hours.''],
        stdin := [''5'']\<rparr>)"
    using invalid_integer_rejected
      [where w = "typing [''1'', ''Guitar'', ''Creative'', ''ten'', ''5'']" and name = "''Guitar''"
         and category = "''Creative''" and t = "''ten''" and rest = "[''5'']"
         and maxd = 4300 and env = overflow_engine and now = today and fmt = Skill]
      s1 py_int_examples(1)
    by (simp only: o t append_Nil) (simp)?
  have b: "menu_iteration 4300 overflow_engine today Skill (typing [''2'', ''x'', ''5'']) =
     (Inr True, example_world\<lparr>stdout := menu @
        [''Choose an option: '', ''Skill ID: '',
         ''Invalid input. Please enter numbers where required.''],
        stdin := [''5'']\<rparr>)"
    using invalid_integer_rejected
      [where w = "typing [''2'', ''x'', ''5'']" and a = "''x''" and rest = "[''5'']"
         and maxd = 4300 and env = overflow_engine and now = today and fmt = Skill]
      s2 py_int_examples(2)
    by (simp only: o t append_Nil) (simp)?
  have c: "menu_iteration 4300 overflow_engine today Skill (typing [''2'', ''1'', ''1h'', ''5'']) =
     (Inr True, example_world\<lparr>stdout := menu @
        [''Choose an option: '', ''Skill ID: '', ''Duration (in minutes): '',
         ''Invalid input. Please enter numbers where required.''],
        stdin := [''5'']\<rparr>)"
    using invalid_integer_rejected
      [where w = "typing [''2'', ''1'', ''1h'', ''5'']" and a = "''1''" and b = "''1h''"
         and rest = "[''5'']" and k = 1 and maxd = 4300 and env = overflow_engine and now = today
         and fmt = Skill]
      s3 py_int_examples(3,4)
    by (simp only: o t append_Nil) (simp)?
  show ?thesis
    by (intro conjI) (rule a b c py_int_examples(1,2,3,4))+
qed

theorem empty_date_defaults_to_today_witness:
  "stdin (typing [''2'', ''1'', '' 60'', ''arpeggios'', [], ''5'']) =
     ''2'' # ''1'' # '' 60'' # ''arpeggios'' # [] # [''5''] \<and>
   py_int 4300 ''1'' = Inr 1 \<and> py_int 4300 '' 60'' = Inr 60 \<and> int64 1 \<and> int64 60 \<and>
   conn (typing [''2'', ''1'', '' 60'', ''arpeggios'', [], ''5'']) = Some example_database \<and>
   strftime_Ymd today = ''2026-11-04'' \<and>
   parse_iso_date (strftime_Ymd today) = Some (2026, 11, 4) \<and>
   (\<exists>w' d'. menu_iteration 4300 no_error today Skill
               (typing [''2'', ''1'', '' 60'', ''arpeggios'', [], ''5'']) = (Inr True, w') \<and>
      conn w' = Some d' \<and> stdin w' = [''5''] \<and>
      butlast (sessions d') = sessions example_database \<and>
      last (sessions d') =
        \<lparr>sessions_id = 4, sessions_skill_id = 1, sessions_duration_minutes = 60,
         sessions_notes = ''arpeggios'', sessions_date = ''2026-11-04''\<rparr>)"
proof -
  let ?w = "typing [''2'', ''1'', '' 60'', ''arpeggios'', [], ''5'']"
  have s: "stdin ?w = ''2'' # ''1'' # '' 60'' # ''arpeggios'' # [] # [''5'']"
    and c: "conn ?w = Some example_database"
    by (simp_all add: typing_def example_world_def)
  have n: "next_rowid (map sessions_id (sessions example_database)) (sessions_seq example_database) = 4"
    by (simp add: next_rowid_def example_database_def)
  have r: "year today < 10000 \<and> month today < 100 \<and> day today < 100"
    and f: "year today = 2026" "month today = 11" "day today = 4"
    by (simp_all add: today_def)
  note inst = empty_date_defaults_to_today
      [OF s py_int_examples(4,5) c int64_examples(1,4), of today Skill]
  have p: "parse_iso_date (strftime_Ymd today) = Some (2026, 11, 4)"
    using inst r by (simp only: f) (simp)?
  have "\<exists>w' d'. menu_iteration 4300 no_error today Skill ?w = (Inr True, w') \<and>
      conn w' = Some d' \<and> stdin w' = [''5''] \<and>
      butlast (sessions d') = sessions example_database \<and>
      last (sessions d') =
        \<lparr>sessions_id = 4, sessions_skill_id = 1, sessions_duration_minutes = 60,
         sessions_notes = ''arpeggios'', sessions_date = ''2026-11-04''\<rparr>"
    using inst by (simp add: n today_examples)
  then show ?thesis
    using s c p py_int_examples(4,5) today_examples(1) int64_examples(1,4) by (intro conjI)
qed

section \<open>The menu loop ends\<close>

lemma keeps_return: "keeps_stdin (return_io a)"
  by (simp add: keeps_stdin_def return_io_def)

lemma keeps_lift: "keeps_stdin (lift_io r)"
  by (simp add: keeps_stdin_def lift_io_def)

lemma keeps_print: "keeps_stdin (print s)"
  by (simp add: keeps_stdin_def print_def)

lemma keeps_input: "keeps_stdin (input p)"
  by (simp add: keeps_stdin_def input_def split: list.splits)

lemma keeps_engine_call: "keeps_stdin (engine_call env c)"
  by (simp add: keeps_stdin_def engine_call_def split: option.splits)

lemma keeps_self_conn: "keeps_stdin self_conn"
  by (simp add: keeps_stdin_def self_conn_def split: option.splits)

lemma keeps_bind:
  assumes "keeps_stdin m" and "\<And>a. keeps_stdin (f a)"
  shows "keeps_stdin (bind_io m f)"
  unfolding keeps_stdin_def
proof
  fix w
  obtain r w1 where m: "m w = (r, w1)" by (cases "m w")
  have l1: "length (stdin w1) \<le> length (stdin w)"
    using assms(1) m by (auto simp: keeps_stdin_def dest: spec [of _ w])
  show "length (stdin (snd (bind_io m f w))) \<le> length (stdin w)"
  proof (cases r)
    case (Inl e)
    then show ?thesis using m l1 by (simp add: bind_io_def)
  next
    case (Inr a)
    have "length (stdin (snd (f a w1))) \<le> length (stdin w1)"
      using assms(2) [of a] by (simp add: keeps_stdin_def)
    then show ?thesis using m l1 Inr by (simp add: bind_io_def)
  qed
qed

lemma keeps_execute: "keeps_stdin (execute env n stmt)"
  unfolding execute_def
  by (intro keeps_bind keeps_engine_call keeps_self_conn keeps_lift) (simp add: keeps_stdin_def)

lemma keeps_except_sqlite3_Error:
  assumes "keeps_stdin m" and "\<And>e. keeps_stdin (h e)"
  shows "keeps_stdin (except_sqlite3_Error m h)"
  unfolding keeps_stdin_def
proof
  fix w
  obtain r w1 where m: "m w = (r, w1)" by (cases "m w")
  have l1: "length (stdin w1) \<le> length (stdin w)"
    using assms(1) m by (auto simp: keeps_stdin_def dest: spec [of _ w])
  have l2: "length (stdin (snd (h e w1))) \<le> length (stdin w1)" for e
    using assms(2) [of e] by (simp add: keeps_stdin_def)
  show "length (stdin (snd (except_sqlite3_Error m h w))) \<le> length (stdin w)"
    using m l1 l2 order_trans [OF l2 l1]
    by (auto simp: except_sqlite3_Error_def split: sum.splits exn.splits)
qed

lemma keeps_except_ValueError:
  assumes "keeps_stdin m" and "keeps_stdin h"
  shows "keeps_stdin (except_ValueError m h)"
  unfolding keeps_stdin_def
proof
  fix w
  obtain r w1 where m: "m w = (r, w1)" by (cases "m w")
  have l1: "length (stdin w1) \<le> length (stdin w)"
    using assms(1) m by (auto simp: keeps_stdin_def dest: spec [of _ w])
  have l2: "length (stdin (snd (h w1))) \<le> length (stdin w1)"
    using assms(2) by (simp add: keeps_stdin_def)
  show "length (stdin (snd (except_ValueError m h w))) \<le> length (stdin w)"
    using m l1 order_trans [OF l2 l1]
    by (auto simp: except_ValueError_def split: sum.splits exn.splits)
qed

lemmas keeps_intros = keeps_bind keeps_return keeps_lift keeps_print keeps_input
  keeps_engine_call keeps_self_conn keeps_execute keeps_except_sqlite3_Error
  keeps_except_ValueError

lemma keeps_add_skill: "keeps_stdin (add_skill env sk)"
  unfolding add_skill_def by (intro keeps_intros)

lemma keeps_log_session: "keeps_stdin (log_session env s)"
  unfolding log_session_def by (intro keeps_intros)

lemma keeps_delete_skill: "keeps_stdin (delete_skill env k)"
  unfolding delete_skill_def by (intro keeps_intros)

lemma keeps_get_progress: "keeps_stdin (get_progress env)"
  unfolding get_progress_def by (intro keeps_intros)

lemma keeps_print_all: "keeps_stdin (print_all ls)"
  by (simp add: keeps_stdin_def print_all_eq)

lemma keeps_option_1: "keeps_stdin (option_1 maxd env)"
  unfolding option_1_def by (intro keeps_intros keeps_add_skill)

lemma keeps_option_2: "keeps_stdin (option_2 maxd env now)"
  unfolding option_2_def by (intro keeps_intros keeps_log_session)

lemma keeps_option_3: "keeps_stdin (option_3 env fmt)"
  unfolding option_3_def by (intro keeps_intros keeps_get_progress keeps_print_all)

lemma keeps_option_4: "keeps_stdin (option_4 maxd env)"
  unfolding option_4_def by (intro keeps_intros keeps_delete_skill)

lemma menu_iteration_reads:
  assumes "menu_iteration maxd env now fmt w = (Inr again, w')"
  shows "length (stdin w') < length (stdin w)"
proof (cases "stdin w")
  case Nil
  then have "fst (menu_iteration maxd env now fmt w) = Inl EOFError"
    by (simp add: menu_iteration_def bind_io_def [of "print_all menu"]
        bind_io_def [of "input ''Choose an option: ''"] print_all_eq input_def)
  then show ?thesis using assms by simp
next
  case (Cons c rest)
  let ?w = "w\<lparr>stdout := stdout w @ menu @ [''Choose an option: ''], stdin := rest\<rparr>"
  let ?f = "if c = ''1'' then bind_io (option_1 maxd env) (\<lambda>_. return_io True)
      else if c = ''2'' then bind_io (option_2 maxd env now) (\<lambda>_. return_io True)
      else if c = ''3'' then bind_io (option_3 env fmt) (\<lambda>_. return_io True)
      else if c = ''4'' then bind_io (option_4 maxd env) (\<lambda>_. return_io True)
      else if c = ''5'' then return_io False
      else bind_io (print ''Invalid choice.'') (\<lambda>_. return_io True)"
  have k: "keeps_stdin ?f"
    by (auto intro!: keeps_intros keeps_option_1 keeps_option_2 keeps_option_3 keeps_option_4)
  have "menu_iteration maxd env now fmt w = ?f ?w"
    by (rule menu_iteration_choice [OF Cons])
  then have "?f ?w = (Inr again, w')" using assms by (simp only:)
  then have "w' = snd (?f ?w)" by (simp only: snd_conv)
  moreover have "length (stdin (snd (?f ?w))) \<le> length (stdin ?w)"
    using k unfolding keeps_stdin_def by (rule spec)
  ultimately show ?thesis using Cons by simp
qed

termination run
  apply (relation "measure (\<lambda>(maxd, envs, clock, fmt, n, w). length (stdin w))")
   apply simp
  apply (simp only: in_measure prod.case)
  apply (rule menu_iteration_reads [OF sym])
  apply assumption
  done

lemma run_exit:
  "run 4300 (\<lambda>_. no_error) (\<lambda>_. today) Skill 0 (typing [''9'', ''5'']) =
     (Inr (), example_world\<lparr>stdout := menu @ [''Choose an option: '', ''Invalid choice.''] @
        menu @ [''Choose an option: ''], stdin := []\<rparr>)"
  by (simp add: menu_iteration_choice typing_def bind_io_def print_def return_io_def example_world_def)

text \<open>
  An integer beyond 64 bits typed for the id to delete: \<^verbatim>\<open>int\<close> accepts it, the binding
  raises \<^verbatim>\<open>OverflowError\<close>, no handler catches it, and the loop is left with the line
  after it unread and the database as it was.
\<close>

lemma run_overflow:
  "run 4300 (\<lambda>_. no_error) (\<lambda>_. today) Skill 0 (typing [''4'', ''9223372036854775808'', ''5'']) =
     (Inl OverflowError,
      example_world\<lparr>stdout := menu @ [''Choose an option: '', ''Enter Skill ID to delete: ''],
        stdin := [''5'']\<rparr>)"
proof -
  have i: "\<not> int64 9223372036854775808" by (simp add: int64_def)
  have c: "conn (example_world\<lparr>stdout := out, stdin := ls\<rparr>) = Some example_database" for out ls
    by (simp add: example_world_def)
  show ?thesis
    by (simp add: menu_iteration_choice typing_def option_4_def except_ValueError_def bind_io_def
        input_def lift_io_def py_int_beyond_int64 delete_skill_overflow [OF c i])
       (simp add: example_world_def)
qed

end
